theory Spec2Isabelle
  imports Complex_Main "HOL-Library.Word"
begin

unbundle bit_operations_syntax

section \<open>Data model\<close>

text \<open>
  The estimator of \<^verbatim>\<open>CameraPoseEstimator.cpp\<close>. C++ \<^verbatim>\<open>float\<close> and \<^verbatim>\<open>double\<close>
  values are read as real numbers (no NaN, no infinity); the arithmetic on them is exact,
  except for the mean distance of the filter, which the source accumulates and divides in
  a \<^verbatim>\<open>float\<close> and which is rounded to single precision here. \<^verbatim>\<open>int\<close> indices
  are integers, container positions are naturals.
\<close>

type_synonym point2f = "real \<times> real"

type_synonym point2i = "int \<times> int"

type_synonym point3f = "real \<times> real \<times> real"

text \<open>\<^verbatim>\<open>cv::KeyPoint\<close>: the pixel location and the other fields carried along.\<close>

record KeyPoint =
  pt :: point2f
  kp_size :: real
  kp_angle :: real
  kp_response :: real
  kp_octave :: int
  kp_class_id :: int

text \<open>\<^verbatim>\<open>cv::DMatch\<close>: query (mobile side) index, train (fixed side) index, distance.\<close>

record DMatch =
  queryIdx :: int
  trainIdx :: int
  distance :: real

text \<open>
  The members written by \<^verbatim>\<open>setupParameters\<close> that the modelled code reads, and
  \<^verbatim>\<open>keypointMinDistThreshold\<close>, a member declared in the header (its value is a
  parameter here). \<^verbatim>\<open>minimumMatchesNumber\<close> is an \<^verbatim>\<open>unsigned int\<close>.
\<close>

record estimator_params =
  matchingThreshold :: real
  keypointMinDistThreshold :: real
  reprojectionErrorDiscardThreshold :: real
  phoneOrientationDifferenceThreshold_deg :: real
  minimumMatchesNumber :: "32 word"
  enableFeaturesMemory :: bool
  maxPoseHeight :: real
  minPoseHeight :: real
  pnpReprojectionError :: real
  pnpConfidence :: real
  pnpIterations :: real

text \<open>Exceptions of the bounds-checked accessors.\<close>

datatype exception = OutOfRange | CvAssertion

definition bindE :: "('e + 'a) \<Rightarrow> ('a \<Rightarrow> 'e + 'b) \<Rightarrow> 'e + 'b" where
  "bindE r f = (case r of Inl e \<Rightarrow> Inl e | Inr v \<Rightarrow> f v)"

text \<open>
  \<^verbatim>\<open>std::vector::at\<close> called with an \<^verbatim>\<open>int\<close>: the index is converted to
  \<^verbatim>\<open>size_t\<close>, so a negative index is out of range as well.
\<close>

definition at_vec :: "'a list \<Rightarrow> int \<Rightarrow> exception + 'a" where
  "at_vec xs i = (if 0 \<le> i \<and> nat i < length xs then Inr (xs ! nat i) else Inl OutOfRange)"

text \<open>\<^verbatim>\<open>cv::norm(a - b)\<close> on two \<^verbatim>\<open>Point2f\<close>.\<close>

definition pt_sub :: "point2f \<Rightarrow> point2f \<Rightarrow> point2f" where
  "pt_sub a b = (fst a - fst b, snd a - snd b)"

definition norm_pt :: "point2f \<Rightarrow> real" where
  "norm_pt p = sqrt (fst p * fst p + snd p * snd p)"

text \<open>The test \<^verbatim>\<open>cv::norm(a - b) <= thr\<close>; the source's \<^verbatim>\<open>> thr\<close> is its negation.\<close>

definition withinDist :: "real \<Rightarrow> point2f \<Rightarrow> point2f \<Rightarrow> bool" where
  "withinDist thr a b \<longleftrightarrow> norm_pt (pt_sub a b) \<le> thr"

text \<open>\<^verbatim>\<open>std::vector::erase(begin() + k)\<close>.\<close>

definition erase_at :: "nat \<Rightarrow> 'a list \<Rightarrow> 'a list" where
  "erase_at k xs = take k xs @ drop (Suc k) xs"

text \<open>
  \<^verbatim>\<open>cvRound\<close>: rounding to the nearest integer, ties to even (the default rounding
  mode; saturation at the bounds of \<^verbatim>\<open>int\<close> is left out).
\<close>

definition cvRound :: "real \<Rightarrow> int" where
  "cvRound x =
     (let f = \<lfloor>x\<rfloor> in
      if x - of_int f < 1 / 2 then f
      else if x - of_int f > 1 / 2 then f + 1
      else if even f then f else f + 1)"

text \<open>
  The value of a real number as a \<^verbatim>\<open>float\<close> (IEEE 754 binary32): rounded to 24
  significant bits, to nearest with ties to even. Overflow and subnormal numbers are left
  out (the values rounded here are sums and means of descriptor distances).
\<close>

definition toFloat :: "real \<Rightarrow> real" where
  "toFloat x =
     (if x = 0 then 0
      else let e = \<lfloor>log 2 \<bar>x\<bar>\<rfloor>;
               ulp = 2 powr of_int (e - 23)
           in of_int (cvRound (x / ulp)) * ulp)"

section \<open>Match Filter/Merger: \<^verbatim>\<open>filterMatches\<close>\<close>

text \<open>
  The function reads two members of the estimator: \<^verbatim>\<open>matchingThreshold\<close> and
  \<^verbatim>\<open>keypointMinDistThreshold\<close>.
\<close>

text \<open>The inner loop \<^verbatim>\<open>for (j = i; j < goodMatches.size(); j++)\<close> over the positions \<open>js\<close>.\<close>

fun sameOriginLoop ::
  "real \<Rightarrow> KeyPoint list \<Rightarrow> KeyPoint \<Rightarrow> DMatch list \<Rightarrow> nat list \<Rightarrow> nat list \<Rightarrow> exception + nat list" where
  "sameOriginLoop thr arcoreKeypoints kp1 gm [] acc = Inr acc"
| "sameOriginLoop thr arcoreKeypoints kp1 gm (j # js) acc =
     bindE (at_vec gm (int j)) (\<lambda>mj.
     bindE (at_vec arcoreKeypoints (queryIdx mj)) (\<lambda>kp2.
       sameOriginLoop thr arcoreKeypoints kp1 gm js
         (if withinDist thr (pt kp1) (pt kp2) then acc @ [j] else acc)))"

text \<open>The loop that sets \<^verbatim>\<open>haveSameDestination\<close>, with its \<^verbatim>\<open>break\<close>.\<close>

fun sameDestinationLoop ::
  "real \<Rightarrow> KeyPoint list \<Rightarrow> KeyPoint \<Rightarrow> DMatch list \<Rightarrow> nat list \<Rightarrow> exception + bool" where
  "sameDestinationLoop thr fixedKeypoints fk1 gm [] = Inr True"
| "sameDestinationLoop thr fixedKeypoints fk1 gm (j # js) =
     bindE (at_vec gm (int j)) (\<lambda>mj.
     bindE (at_vec fixedKeypoints (trainIdx mj)) (\<lambda>fk2.
       if \<not> withinDist thr (pt fk1) (pt fk2) then Inr False
       else sameDestinationLoop thr fixedKeypoints fk1 gm js))"

text \<open>
  The two erasing loops: \<^verbatim>\<open>goodMatches.erase(goodMatches.begin() + mwso - elementsErased)\<close>
  with \<^verbatim>\<open>elementsErased\<close> counted up.
\<close>

fun eraseLoop :: "nat list \<Rightarrow> nat \<Rightarrow> 'a list \<Rightarrow> 'a list" where
  "eraseLoop [] elementsErased gm = gm"
| "eraseLoop (j # js) elementsErased gm =
     eraseLoop js (Suc elementsErased) (erase_at (j - elementsErased) gm)"

text \<open>
  The loop \<^verbatim>\<open>averageDist += goodMatches.at(mwso).distance\<close> on the
  \<^verbatim>\<open>float averageDist\<close>: every sum is rounded to a \<^verbatim>\<open>float\<close>.
\<close>

fun sumDistLoop :: "DMatch list \<Rightarrow> nat list \<Rightarrow> real \<Rightarrow> exception + real" where
  "sumDistLoop gm [] averageDist = Inr averageDist"
| "sumDistLoop gm (j # js) averageDist =
     bindE (at_vec gm (int j)) (\<lambda>mj. sumDistLoop gm js (toFloat (averageDist + distance mj)))"

text \<open>
  One iteration of the outer loop, for the representative at position \<open>i\<close>. In
  \<^verbatim>\<open>averageDist /= matchesWithSameOrigin.size()\<close> the size is converted to
  \<^verbatim>\<open>float\<close> and the quotient is a \<^verbatim>\<open>float\<close>.
\<close>

definition filterStep ::
  "estimator_params \<Rightarrow> KeyPoint list \<Rightarrow> KeyPoint list \<Rightarrow> nat \<Rightarrow> DMatch list \<Rightarrow> exception + DMatch list" where
  "filterStep p arcoreKeypoints fixedKeypoints i gm =
     bindE (at_vec gm (int i)) (\<lambda>mi.
     bindE (at_vec arcoreKeypoints (queryIdx mi)) (\<lambda>arcoreKeypoint1.
     bindE (sameOriginLoop (keypointMinDistThreshold p) arcoreKeypoints arcoreKeypoint1 gm
              [i..<length gm] []) (\<lambda>matchesWithSameOrigin.
       if length matchesWithSameOrigin \<le> 1 then Inr gm
       else
         bindE (at_vec fixedKeypoints (trainIdx mi)) (\<lambda>fixedKeypoint1.
         bindE (sameDestinationLoop (keypointMinDistThreshold p) fixedKeypoints fixedKeypoint1 gm
                  matchesWithSameOrigin) (\<lambda>haveSameDestination.
           if \<not> haveSameDestination then Inr (eraseLoop matchesWithSameOrigin 0 gm)
           else
             bindE (sumDistLoop gm matchesWithSameOrigin 0) (\<lambda>s.
               let averageDist = toFloat (s / toFloat (real (length matchesWithSameOrigin)));
                   gm1 = gm[i := mi\<lparr>distance := averageDist\<rparr>]
               in Inr (eraseLoop (tl matchesWithSameOrigin) 0 gm1)))))))"

lemma length_erase_at: "length (erase_at k xs) \<le> length xs"
  by (simp add: erase_at_def)

lemma length_eraseLoop: "length (eraseLoop js e xs) \<le> length xs"
proof (induction js arbitrary: e xs)
  case Nil
  then show ?case by simp
next
  case (Cons j js)
  have "length (eraseLoop js (Suc e) (erase_at (j - e) xs)) \<le> length (erase_at (j - e) xs)"
    by (rule Cons.IH)
  also have "\<dots> \<le> length xs" by (rule length_erase_at)
  finally show ?case by simp
qed

lemma filterStep_length:
  assumes "filterStep p aks fks i gm = Inr gm'"
  shows "length gm' \<le> length gm"
proof -
  have a: "length (eraseLoop js 0 gm) \<le> length gm" for js
    by (rule length_eraseLoop)
  have b: "length (eraseLoop js 0 (gm[i := m])) \<le> length gm" for js m
    using length_eraseLoop [of js 0 "gm[i := m]"] by simp
  from assms show ?thesis
    by (auto simp: filterStep_def bindE_def Let_def a b split: sum.splits if_splits)
qed

text \<open>
  The outer loop \<^verbatim>\<open>for (size_t i = 0; i < goodMatches.size(); i++)\<close>: the size is read
  again at every iteration, and \<open>i\<close> is incremented whatever the iteration erased.
\<close>

function mergeLoop ::
  "estimator_params \<Rightarrow> KeyPoint list \<Rightarrow> KeyPoint list \<Rightarrow> nat \<Rightarrow> DMatch list \<Rightarrow> exception + DMatch list" where
  "mergeLoop p arcoreKeypoints fixedKeypoints i gm =
     (if i < length gm then
        (case filterStep p arcoreKeypoints fixedKeypoints i gm of
           Inl e \<Rightarrow> Inl e
         | Inr gm' \<Rightarrow> mergeLoop p arcoreKeypoints fixedKeypoints (Suc i) gm')
      else Inr gm)"
  by pat_completeness auto
termination
proof (relation "measure (\<lambda>(p, aks, fks, i, gm). length gm - i)")
  show "wf (measure (\<lambda>(p, aks, fks, i, gm). length gm - i))" by simp
next
  fix p aks fks i gm gm'
  assume "i < length gm" and "filterStep p aks fks i gm = Inr gm'"
  then show "((p, aks, fks, Suc i, gm'), (p, aks, fks, i, gm))
              \<in> measure (\<lambda>(p, aks, fks, i, gm). length gm - i)"
    using filterStep_length [of p aks fks i gm gm'] by simp
qed

declare mergeLoop.simps [simp del]

text \<open>
  \<^verbatim>\<open>filterMatches\<close>. The first loop of the source (best and worst distance) only feeds
  a log line. The output vector \<open>goodMatches\<close> is appended to, not cleared; \<^verbatim>\<open>update\<close>
  passes a fresh empty one. The result code is always 0.
\<close>

definition filterMatches ::
  "estimator_params \<Rightarrow> DMatch list \<Rightarrow> DMatch list \<Rightarrow> KeyPoint list \<Rightarrow> KeyPoint list
     \<Rightarrow> exception + (int \<times> DMatch list)" where
  "filterMatches p matches goodMatches arcoreKeypoints fixedKeypoints =
     bindE (mergeLoop p arcoreKeypoints fixedKeypoints 0
              (goodMatches @ filter (\<lambda>m. distance m \<le> matchingThreshold p) matches))
       (\<lambda>gm. Inr (0, gm))"

section \<open>Depth Resolver: \<^verbatim>\<open>fixMatchesDepthOrDrop\<close>\<close>

text \<open>
  The depth image is a \<^verbatim>\<open>cv::Mat\<close> of \<^verbatim>\<open>uint16_t\<close>. \<^verbatim>\<open>Mat::at\<close> is not
  bounds-checked in a release build: a pixel outside the image is undefined behaviour in
  the source and is not distinguished here (\<open>px\<close> is total).
\<close>

record depth_img =
  rows :: nat
  cols :: nat
  px :: "point2i \<Rightarrow> 16 word"

text \<open>
  \<^verbatim>\<open>Mat::at<uint16_t>(Point2f)\<close> converts the point to \<^verbatim>\<open>Point2i\<close> with
  \<^verbatim>\<open>saturate_cast\<close>, that is \<^verbatim>\<open>cvRound\<close>. Passing a \<^verbatim>\<open>float\<close> for an
  \<^verbatim>\<open>int\<close> parameter truncates toward zero.
\<close>

definition toPoint2i :: "point2f \<Rightarrow> point2i" where
  "toPoint2i p = (cvRound (fst p), cvRound (snd p))"

definition truncInt :: "real \<Rightarrow> int" where
  "truncInt x = (if 0 \<le> x then \<lfloor>x\<rfloor> else \<lceil>x\<rceil>)"

definition hypot :: "real \<Rightarrow> real \<Rightarrow> real" where
  "hypot a b = sqrt (a * a + b * b)"

text \<open>
  The two search helpers are declared in \<^verbatim>\<open>utils.hpp\<close>; their bodies are in
  \<^verbatim>\<open>utils.cpp\<close>, which is not among the sources, so the resolver takes them as
  parameters:
  \<^verbatim>\<open>findNearestNonZeroPixel(image, x, y, maxDist)\<close> and
  \<^verbatim>\<open>findLowestNonZeroInRing(image, x, y, maxRadius, minRadius)\<close>.
\<close>

type_synonym nearest_fn = "depth_img \<Rightarrow> int \<Rightarrow> int \<Rightarrow> real \<Rightarrow> point2i"

type_synonym ring_fn = "depth_img \<Rightarrow> int \<Rightarrow> int \<Rightarrow> real \<Rightarrow> real \<Rightarrow> point2i"

text \<open>
  The body of the loop for one match whose keypoint is at \<open>imgPos\<close>: the search and the
  write-back (the \<^verbatim>\<open>if\<close> around them is commented out in the source), giving the new
  image.
\<close>

definition fixDepthAt :: "nearest_fn \<Rightarrow> ring_fn \<Rightarrow> point2f \<Rightarrow> depth_img \<Rightarrow> depth_img" where
  "fixDepthAt findNearestNonZeroPixel findLowestNonZeroInRing imgPos kinectDepthImg =
     (let x = truncInt (fst imgPos);
          y = truncInt (snd imgPos);
          nnz = findNearestNonZeroPixel kinectDepthImg x y 100;
          nnzDist = hypot (of_int (fst nnz) - fst imgPos) (of_int (snd nnz) - snd imgPos);
          nnz' = findLowestNonZeroInRing kinectDepthImg x y (nnzDist + 10) nnzDist
      in kinectDepthImg\<lparr>px := (px kinectDepthImg)(toPoint2i imgPos := px kinectDepthImg nnz')\<rparr>)"

fun fixLoop ::
  "nearest_fn \<Rightarrow> ring_fn \<Rightarrow> KeyPoint list \<Rightarrow> DMatch list \<Rightarrow> depth_img \<Rightarrow> DMatch list
     \<Rightarrow> exception + (depth_img \<times> DMatch list)" where
  "fixLoop fnn flr fixedKeypoints [] img outputMatches = Inr (img, outputMatches)"
| "fixLoop fnn flr fixedKeypoints (m # ms) img outputMatches =
     bindE (at_vec fixedKeypoints (trainIdx m)) (\<lambda>kp.
       let imgPos = pt kp;
           img' = fixDepthAt fnn flr imgPos img
       in if px img' (toPoint2i imgPos) = 0
          then fixLoop fnn flr fixedKeypoints ms img' outputMatches
          else fixLoop fnn flr fixedKeypoints ms img' (outputMatches @ [m]))"

text \<open>\<^verbatim>\<open>fixMatchesDepthOrDrop\<close>: result code (always 0), the image as left, the output.\<close>

definition fixMatchesDepthOrDrop ::
  "nearest_fn \<Rightarrow> ring_fn \<Rightarrow> DMatch list \<Rightarrow> KeyPoint list \<Rightarrow> depth_img
     \<Rightarrow> exception + (int \<times> depth_img \<times> DMatch list)" where
  "fixMatchesDepthOrDrop fnn flr inputMatches fixedKeypoints kinectDepthImg =
     bindE (fixLoop fnn flr fixedKeypoints inputMatches kinectDepthImg [])
       (\<lambda>(img, outputMatches). Inr (0, img, outputMatches))"

text \<open>
  Names for the statements about the resolver: the pixel that the two searches return for
  a keypoint position, the pixel that \<^verbatim>\<open>Mat::at\<close> reads and writes for a match, the
  image after the loop body for one match, and the image after the first \<open>k\<close> matches.
\<close>

definition ringPixel :: "nearest_fn \<Rightarrow> ring_fn \<Rightarrow> point2f \<Rightarrow> depth_img \<Rightarrow> point2i" where
  "ringPixel fnn flr imgPos img =
     (let x = truncInt (fst imgPos);
          y = truncInt (snd imgPos);
          nnz = fnn img x y 100;
          nnzDist = hypot (of_int (fst nnz) - fst imgPos) (of_int (snd nnz) - snd imgPos)
      in flr img x y (nnzDist + 10) nnzDist)"

definition fixedPixel :: "KeyPoint list \<Rightarrow> DMatch \<Rightarrow> point2i" where
  "fixedPixel fks m = toPoint2i (pt (fks ! nat (trainIdx m)))"

definition repairStep ::
  "nearest_fn \<Rightarrow> ring_fn \<Rightarrow> KeyPoint list \<Rightarrow> depth_img \<Rightarrow> DMatch \<Rightarrow> depth_img" where
  "repairStep fnn flr fks img m = fixDepthAt fnn flr (pt (fks ! nat (trainIdx m))) img"

definition depthAfter ::
  "nearest_fn \<Rightarrow> ring_fn \<Rightarrow> KeyPoint list \<Rightarrow> depth_img \<Rightarrow> DMatch list \<Rightarrow> nat \<Rightarrow> depth_img" where
  "depthAfter fnn flr fks img ms k = foldl (repairStep fnn flr fks) img (take k ms)"

text \<open>
  Modelled from the spec: the bodies of \<^verbatim>\<open>findNearestNonZeroPixel\<close> and
  \<^verbatim>\<open>findLowestNonZeroInRing\<close> are missing. The spec has: search outward for the nearest
  nonzero pixel within a bounded radius, then search a concentric ring (inner radius that
  nearest distance, outer radius nearest distance plus a fixed margin) for the lowest
  nonzero depth value found in the ring; if no nonzero depth is found the match is
  dropped. Here both scan the pixels of the image in row order and return the start pixel
  when nothing is found (its depth then decides the drop).
\<close>

definition pixelsOf :: "depth_img \<Rightarrow> point2i list" where
  "pixelsOf img =
     concat (map (\<lambda>r. map (\<lambda>c. (c, r)) [0..int (cols img) - 1]) [0..int (rows img) - 1])"

definition pixDist :: "int \<Rightarrow> int \<Rightarrow> point2i \<Rightarrow> real" where
  "pixDist x y q = hypot (of_int (fst q - x)) (of_int (snd q - y))"

definition distLe :: "int \<Rightarrow> int \<Rightarrow> point2i \<Rightarrow> real \<Rightarrow> bool" where
  "distLe x y q r \<longleftrightarrow> pixDist x y q \<le> r"

definition distGe :: "int \<Rightarrow> int \<Rightarrow> point2i \<Rightarrow> real \<Rightarrow> bool" where
  "distGe x y q r \<longleftrightarrow> r \<le> pixDist x y q"

definition nearer :: "int \<Rightarrow> int \<Rightarrow> point2i \<Rightarrow> point2i \<Rightarrow> bool" where
  "nearer x y q best \<longleftrightarrow> pixDist x y q < pixDist x y best"

fun nearestOf :: "int \<Rightarrow> int \<Rightarrow> point2i \<Rightarrow> point2i list \<Rightarrow> point2i" where
  "nearestOf x y best [] = best"
| "nearestOf x y best (q # qs) = nearestOf x y (if nearer x y q best then q else best) qs"

fun lowestOf :: "depth_img \<Rightarrow> point2i \<Rightarrow> point2i list \<Rightarrow> point2i" where
  "lowestOf img best [] = best"
| "lowestOf img best (q # qs) =
     lowestOf img (if px img q < px img best then q else best) qs"

definition findNearestNonZeroPixel_spec :: nearest_fn where
  "findNearestNonZeroPixel_spec img x y maxDist =
     (case filter (\<lambda>q. px img q \<noteq> 0 \<and> distLe x y q maxDist) (pixelsOf img) of
        [] \<Rightarrow> (x, y)
      | q # qs \<Rightarrow> nearestOf x y q qs)"

definition findLowestNonZeroInRing_spec :: ring_fn where
  "findLowestNonZeroInRing_spec img x y maxRadius minRadius =
     (case filter (\<lambda>q. px img q \<noteq> 0 \<and> distGe x y q minRadius \<and> distLe x y q maxRadius)
             (pixelsOf img) of
        [] \<Rightarrow> (x, y)
      | q # qs \<Rightarrow> lowestOf img q qs)"

section \<open>Poses, cameras, descriptors and the feature memory\<close>

type_synonym vec3 = "real \<times> real \<times> real"

record quaternion =
  qx :: real
  qy :: real
  qz :: real
  qw :: real

text \<open>\<^verbatim>\<open>geometry_msgs::Pose\<close>, \<^verbatim>\<open>PoseStamped\<close> and \<^verbatim>\<open>TransformStamped\<close>.\<close>

record pose =
  position :: vec3
  orientation :: quaternion

record pose_stamped =
  ps_pose :: pose
  frame_id :: string
  stamp :: nat

record transform_stamped =
  translation :: vec3
  rotation :: quaternion

text \<open>The four entries of a camera matrix that the code reads.\<close>

record camera_matrix =
  focal_x :: real
  focal_y :: real
  principal_x :: real
  principal_y :: real

text \<open>A descriptor matrix: one row of bytes per keypoint.\<close>

type_synonym descriptor = "8 word list"

type_synonym descriptors = "descriptor list"

text \<open>\<^verbatim>\<open>cv::Mat::row\<close> checks its range with \<^verbatim>\<open>CV_Assert\<close>.\<close>

definition row_mat :: "descriptors \<Rightarrow> int \<Rightarrow> exception + descriptor" where
  "row_mat ds i = (if 0 \<le> i \<and> nat i < length ds then Inr (ds ! nat i) else Inl CvAssertion)"

text \<open>\<^verbatim>\<open>FeaturesMemory::Feature\<close>, in the order of its constructor's arguments.\<close>

record Feature =
  keypoint :: KeyPoint
  descriptor :: descriptor
  observerDistance_meters :: real
  observerDirection :: vec3
  depth :: "16 word"

text \<open>
  What the estimator calls without defining it: OpenCV (matcher, solver, projection, ORB),
  tf2, the helpers of \<^verbatim>\<open>utils.hpp\<close> and the \<^verbatim>\<open>FeaturesMemory\<close> class, whose store has
  the type \<open>'fm\<close>. The matcher may throw. The solver returns its success flag, the
  rotation and translation vectors and the inliers.
\<close>

record 'fm externals =
  bfMatcher_match :: "descriptors \<Rightarrow> descriptors \<Rightarrow> exception + DMatch list"
  findNearestNonZeroPixel :: nearest_fn
  findLowestNonZeroInRing :: ring_fn
  get3dPoint :: "int \<Rightarrow> int \<Rightarrow> int \<Rightarrow> real \<Rightarrow> real \<Rightarrow> real \<Rightarrow> real \<Rightarrow> point3f"
  solvePnPRansac ::
    "point3f list \<Rightarrow> point2f list \<Rightarrow> camera_matrix \<Rightarrow> vec3 \<Rightarrow> vec3 \<Rightarrow> bool \<Rightarrow> real \<Rightarrow> real \<Rightarrow> real
       \<Rightarrow> bool \<times> vec3 \<times> vec3 \<times> int list"
  projectPoints :: "point3f list \<Rightarrow> vec3 \<Rightarrow> vec3 \<Rightarrow> camera_matrix \<Rightarrow> point2f list"
  tfPoseToOpenCvPose :: "pose \<Rightarrow> vec3 \<times> vec3"
  opencvPoseToRosPose :: "vec3 \<Rightarrow> vec3 \<Rightarrow> pose"
  invertPose :: "pose \<Rightarrow> pose"
  doTransform :: "pose_stamped \<Rightarrow> transform_stamped \<Rightarrow> pose_stamped"
  removeNonBackgroundFeatures :: "depth_img \<Rightarrow> 'fm \<Rightarrow> 'fm"
  saveFeature :: "Feature \<Rightarrow> 'fm \<Rightarrow> 'fm"
  getFeatures :: "'fm \<Rightarrow> Feature list"

text \<open>The members of the estimator that \<^verbatim>\<open>update\<close> reads or writes.\<close>

record 'fm estimator =
  params :: estimator_params
  transformFixedCameraToWorld :: transform_stamped
  fixed_sensor_name :: string
  featuresMemory :: 'fm
  lastPoseEstimate :: pose_stamped
  lastEstimateMatchesNumber :: int
  lastEstimateReprojectionError :: real
  didComputeEstimate :: bool

section \<open>Feature Matcher: \<^verbatim>\<open>findOrbMatches\<close>\<close>

text \<open>
  The function hands both descriptor sets to the brute-force Hamming matcher and returns
  0; it has no test of its own on the descriptor sets.
\<close>

definition findOrbMatches ::
  "'fm externals \<Rightarrow> descriptors \<Rightarrow> descriptors \<Rightarrow> exception + (int \<times> DMatch list)" where
  "findOrbMatches ex arcoreDescriptors kinectDescriptors =
     bindE (bfMatcher_match ex arcoreDescriptors kinectDescriptors) (\<lambda>matches. Inr (0, matches))"

section \<open>3D Reconstructor: \<^verbatim>\<open>get3dPositionsAndImagePositions\<close>\<close>

fun positionsLoop ::
  "'fm externals \<Rightarrow> KeyPoint list \<Rightarrow> KeyPoint list \<Rightarrow> depth_img \<Rightarrow> camera_matrix \<Rightarrow> DMatch list
     \<Rightarrow> exception + (point3f list \<times> point2f list)" where
  "positionsLoop ex fixedKeypoints arcoreKeypoints img cam [] = Inr ([], [])"
| "positionsLoop ex fixedKeypoints arcoreKeypoints img cam (m # ms) =
     bindE (at_vec fixedKeypoints (trainIdx m)) (\<lambda>fk.
     bindE (at_vec arcoreKeypoints (queryIdx m)) (\<lambda>ak.
       let kinectPixelPos = pt fk;
           arcorePixelPos = pt ak;
           pos3d = get3dPoint ex (truncInt (fst kinectPixelPos)) (truncInt (snd kinectPixelPos))
                     (uint (px img (toPoint2i kinectPixelPos)))
                     (focal_x cam) (focal_y cam) (principal_x cam) (principal_y cam)
       in bindE (positionsLoop ex fixedKeypoints arcoreKeypoints img cam ms)
            (\<lambda>(ps, qs). Inr (pos3d # ps, arcorePixelPos # qs))))"

definition get3dPositionsAndImagePositions ::
  "'fm externals \<Rightarrow> DMatch list \<Rightarrow> KeyPoint list \<Rightarrow> KeyPoint list \<Rightarrow> depth_img \<Rightarrow> camera_matrix
     \<Rightarrow> exception + (int \<times> point3f list \<times> point2f list)" where
  "get3dPositionsAndImagePositions ex inputMatches fixedKeypoints arcoreKeypoints img cam =
     bindE (positionsLoop ex fixedKeypoints arcoreKeypoints img cam inputMatches)
       (\<lambda>(ps, qs). Inr (0, ps, qs))"

section \<open>Geometry: \<^verbatim>\<open>computeAngleFromZAxis\<close>\<close>

text \<open>
  \<^verbatim>\<open>tf::Transform(q) * v\<close>: the matrix that \<^verbatim>\<open>tf::Matrix3x3::setRotation\<close> builds from
  the quaternion, applied to \<open>v\<close>.
\<close>

definition quatRotate :: "quaternion \<Rightarrow> vec3 \<Rightarrow> vec3" where
  "quatRotate q v =
     (let d = qx q * qx q + qy q * qy q + qz q * qz q + qw q * qw q;
          s = 2 / d;
          xs = qx q * s; ys = qy q * s; zs = qz q * s;
          wx = qw q * xs; wy = qw q * ys; wz = qw q * zs;
          xx = qx q * xs; xy = qx q * ys; xz = qx q * zs;
          yy = qy q * ys; yz = qy q * zs; zz = qz q * zs;
          (a, b, c) = v
      in ((1 - (yy + zz)) * a + (xy - wz) * b + (xz + wy) * c,
          (xy + wz) * a + (1 - (xx + zz)) * b + (yz - wx) * c,
          (xz - wy) * a + (yz + wx) * b + (1 - (xx + yy)) * c))"

definition dot3 :: "vec3 \<Rightarrow> vec3 \<Rightarrow> real" where
  "dot3 u v = (case (u, v) of ((a, b, c), (a', b', c')) \<Rightarrow> a * a' + b * b' + c * c')"

text \<open>\<^verbatim>\<open>tf::Vector3::angle\<close>.\<close>

definition vecAngle :: "vec3 \<Rightarrow> vec3 \<Rightarrow> real" where
  "vecAngle u v = arccos (dot3 u v / sqrt (dot3 u u * dot3 v v))"

text \<open>
  The angle, in degrees (with 3.14159 for \<open>\<pi>\<close>), between the z axis of the frame the pose
  is expressed in and the z axis of the pose.
\<close>

definition computeAngleFromZAxis :: "pose \<Rightarrow> real" where
  "computeAngleFromZAxis p =
     (let zUnitVector = (0, 0, 1);
          opticalAxis = quatRotate (orientation p) zUnitVector
      in \<bar>vecAngle opticalAxis zUnitVector\<bar> * 180 / 3.14159)"

section \<open>Feature memory: \<^verbatim>\<open>saveInliersToMemory\<close>\<close>

text \<open>
  The loop over the inliers. The keypoint and the descriptor are read at
  \<^verbatim>\<open>match.trainIdx\<close> in the containers received as \<open>fixedKeypoints\<close> and
  \<open>fixedDescriptors\<close>. An exception leaves the loop with the store as it is then.
\<close>

definition withStore :: "'fm \<Rightarrow> exception + 'a \<Rightarrow> (exception \<times> 'fm) + 'a" where
  "withStore mem r = (case r of Inl e \<Rightarrow> Inl (e, mem) | Inr v \<Rightarrow> Inr v)"

definition inlierFeature ::
  "point3f \<Rightarrow> pose \<Rightarrow> KeyPoint \<Rightarrow> descriptor \<Rightarrow> depth_img \<Rightarrow> Feature" where
  "inlierFeature feature3dPosCv cameraPose_fixedCameraFrame kp d kinectDepthImage =
     (case (feature3dPosCv, position cameraPose_fixedCameraFrame) of
        ((fx, fy, fz), (phx, phy, phz)) \<Rightarrow>
          \<lparr>keypoint = kp,
           descriptor = d,
           observerDistance_meters =
             sqrt ((fx - phx) * (fx - phx) + (fy - phy) * (fy - phy) + (fz - phz) * (fz - phz)),
           observerDirection = (fx - phx, fy - phy, fz - phz),
           depth = px kinectDepthImage (toPoint2i (pt kp))\<rparr>)"

fun saveLoop ::
  "'fm externals \<Rightarrow> point3f list \<Rightarrow> pose \<Rightarrow> DMatch list \<Rightarrow> KeyPoint list \<Rightarrow> descriptors
     \<Rightarrow> depth_img \<Rightarrow> int list \<Rightarrow> 'fm \<Rightarrow> (exception \<times> 'fm) + 'fm" where
  "saveLoop ex goodMatches3dPos camPose goodMatches fixedKeypoints fixedDescriptors img [] mem =
     Inr mem"
| "saveLoop ex goodMatches3dPos camPose goodMatches fixedKeypoints fixedDescriptors img
     (inl # inls) mem =
     bindE (withStore mem (at_vec goodMatches3dPos inl)) (\<lambda>feature3dPosCv.
     bindE (withStore mem (at_vec goodMatches inl)) (\<lambda>match.
     bindE (withStore mem (at_vec fixedKeypoints (trainIdx match))) (\<lambda>kp.
     bindE (withStore mem (row_mat fixedDescriptors (trainIdx match))) (\<lambda>d.
       saveLoop ex goodMatches3dPos camPose goodMatches fixedKeypoints fixedDescriptors img inls
         (saveFeature ex (inlierFeature feature3dPosCv camPose kp d img) mem)))))"

definition saveInliersToMemory ::
  "'fm externals \<Rightarrow> int list \<Rightarrow> point3f list \<Rightarrow> pose \<Rightarrow> DMatch list \<Rightarrow> KeyPoint list
     \<Rightarrow> descriptors \<Rightarrow> depth_img \<Rightarrow> 'fm \<Rightarrow> (exception \<times> 'fm) + 'fm" where
  "saveInliersToMemory ex inliers goodMatches3dPos cameraPose_fixedCameraFrame goodMatches
       fixedKeypoints fixedDescriptors kinectDepthImage mem =
     saveLoop ex goodMatches3dPos cameraPose_fixedCameraFrame goodMatches fixedKeypoints
       fixedDescriptors kinectDepthImage inliers mem"

section \<open>The estimator: \<^verbatim>\<open>update\<close>\<close>

text \<open>
  Matching, filtering, depth repair and 3D reconstruction (the calls up to the debug
  image). An early return carries its code and the depth image as left.
\<close>

definition matchStage ::
  "'fm externals \<Rightarrow> estimator_params \<Rightarrow> KeyPoint list \<Rightarrow> descriptors \<Rightarrow> KeyPoint list \<Rightarrow> descriptors
     \<Rightarrow> camera_matrix \<Rightarrow> depth_img
     \<Rightarrow> exception + ((int \<times> depth_img) + (int \<times> DMatch list \<times> point3f list \<times> point2f list \<times> depth_img))"
  where
  "matchStage ex p arcoreKeypoints arcoreDescriptors fixedKeypoints fixedDescriptors
       fixedCameraMatrix kinectDepthImage =
     bindE (findOrbMatches ex arcoreDescriptors fixedDescriptors) (\<lambda>(r, matches).
       if r < 0 then Inr (Inl (- 1, kinectDepthImage))
       else
     bindE (filterMatches p matches [] arcoreKeypoints fixedKeypoints) (\<lambda>(r, goodMatchesWithNull).
       if r < 0 then Inr (Inl (- 2, kinectDepthImage))
       else
     bindE (fixMatchesDepthOrDrop (findNearestNonZeroPixel ex) (findLowestNonZeroInRing ex)
              goodMatchesWithNull fixedKeypoints kinectDepthImage) (\<lambda>(r, img, goodMatches).
       if r < 0 then Inr (Inl (- 3, img))
       else
     bindE (get3dPositionsAndImagePositions ex goodMatches fixedKeypoints arcoreKeypoints img
              fixedCameraMatrix) (\<lambda>(r, goodMatches3dPos, goodMatchesImgPos).
       if r < 0 then Inr (Inl (- 4, img))
       else Inr (Inr (r, goodMatches, goodMatches3dPos, goodMatchesImgPos, img))))))"

text \<open>The loop that averages the reprojection error over the inliers.\<close>

fun reprojectionErrorLoop ::
  "point2f list \<Rightarrow> point2f list \<Rightarrow> nat \<Rightarrow> int list \<Rightarrow> real \<Rightarrow> exception + real" where
  "reprojectionErrorLoop goodMatchesImgPos reprojectedPoints n [] reprojectionError =
     Inr reprojectionError"
| "reprojectionErrorLoop goodMatchesImgPos reprojectedPoints n (inl # inls) reprojectionError =
     bindE (at_vec goodMatchesImgPos inl) (\<lambda>pix.
     bindE (at_vec reprojectedPoints inl) (\<lambda>reprojPix.
       reprojectionErrorLoop goodMatchesImgPos reprojectedPoints n inls
         (reprojectionError + hypot (fst pix - fst reprojPix) (snd pix - snd reprojPix) / real n)))"

text \<open>The loop that builds the debug markers reads \<^verbatim>\<open>goodMatches3dPos.at(inliers.at(i))\<close>.\<close>

fun markersLoop :: "point3f list \<Rightarrow> int list \<Rightarrow> exception + unit" where
  "markersLoop goodMatches3dPos [] = Inr ()"
| "markersLoop goodMatches3dPos (inl # inls) =
     bindE (at_vec goodMatches3dPos inl) (\<lambda>_. markersLoop goodMatches3dPos inls)"

definition poseToPoseStamped :: "pose \<Rightarrow> string \<Rightarrow> nat \<Rightarrow> pose_stamped" where
  "poseToPoseStamped p f t = \<lparr>ps_pose = p, frame_id = f, stamp = t\<rparr>"

text \<open>
  The initial guess handed to the solver: the last estimate when there is one, else the
  zero vectors of the default-constructed \<^verbatim>\<open>cv::Vec3d\<close>.
\<close>

definition initialGuess :: "'fm externals \<Rightarrow> 'fm estimator \<Rightarrow> vec3 \<times> vec3" where
  "initialGuess ex est =
     (if didComputeEstimate est then tfPoseToOpenCvPose ex (ps_pose (lastPoseEstimate est))
      else ((0, 0, 0), (0, 0, 0)))"

text \<open>The call of \<^verbatim>\<open>cv::solvePnPRansac\<close>.\<close>

definition runSolver ::
  "'fm externals \<Rightarrow> camera_matrix \<Rightarrow> point3f list \<Rightarrow> point2f list \<Rightarrow> 'fm estimator
     \<Rightarrow> bool \<times> vec3 \<times> vec3 \<times> int list" where
  "runSolver ex arcoreCameraMatrix goodMatches3dPos goodMatchesImgPos est =
     (let (rvec0, tvec0) = initialGuess ex est;
          usePreviousEstimate = didComputeEstimate est
      in solvePnPRansac ex goodMatches3dPos goodMatchesImgPos arcoreCameraMatrix rvec0 tvec0
           usePreviousEstimate (pnpIterations (params est)) (pnpReprojectionError (params est))
           (pnpConfidence (params est)))"

text \<open>\<^verbatim>\<open>invertPose(buildRosPose(position, rotation))\<close> after \<^verbatim>\<open>opencvPoseToEigenPose\<close>.\<close>

definition cameraPoseOf :: "'fm externals \<Rightarrow> vec3 \<Rightarrow> vec3 \<Rightarrow> pose" where
  "cameraPoseOf ex rvec tvec = invertPose ex (opencvPoseToRosPose ex rvec tvec)"

text \<open>The transformation of the candidate pose to the world frame.\<close>

definition toWorld :: "'fm externals \<Rightarrow> 'fm estimator \<Rightarrow> nat \<Rightarrow> pose \<Rightarrow> pose_stamped" where
  "toWorld ex est timestamp cameraPose_fixedCameraFrame =
     (doTransform ex
        (poseToPoseStamped cameraPose_fixedCameraFrame
           (fixed_sensor_name est @ ''_rgb_optical_frame'') timestamp)
        (transformFixedCameraToWorld est))
     \<lparr>frame_id := ''/world'', stamp := timestamp\<rparr>"

definition poseHeight :: "pose_stamped \<Rightarrow> real" where
  "poseHeight ps = snd (snd (position (ps_pose ps)))"

text \<open>
  From the test on the number of good matches to the end of \<^verbatim>\<open>update\<close>. \<open>r\<close> is the
  result code left by the reconstruction. Publishing (markers, debug images) is left out.
\<close>

definition poseStage ::
  "'fm externals \<Rightarrow> KeyPoint list \<Rightarrow> descriptors \<Rightarrow> camera_matrix \<Rightarrow> nat \<Rightarrow> int \<Rightarrow> DMatch list
     \<Rightarrow> point3f list \<Rightarrow> point2f list \<Rightarrow> depth_img \<Rightarrow> 'fm estimator
     \<Rightarrow> exception + (int \<times> 'fm estimator \<times> depth_img)" where
  "poseStage ex arcoreKeypoints arcoreDescriptors arcoreCameraMatrix timestamp r goodMatches
       goodMatches3dPos goodMatchesImgPos kinectDepthImage est =
     (let p = params est in
      if length goodMatches < 4 \<or> length goodMatches < unat (minimumMatchesNumber p)
      then Inr (1, est, kinectDepthImage)
      else
        let (rb, rvec, tvec, inliers) =
              runSolver ex arcoreCameraMatrix goodMatches3dPos goodMatchesImgPos est;
            r' = (if \<not> rb then - 1 else r)
        in
        if length inliers < 4 \<or> length inliers < unat (minimumMatchesNumber p)
        then Inr (2, est, kinectDepthImage)
        else
          let reprojectedPoints = projectPoints ex goodMatches3dPos rvec tvec arcoreCameraMatrix in
          bindE (reprojectionErrorLoop goodMatchesImgPos reprojectedPoints (length inliers)
                   inliers 0) (\<lambda>reprojectionError.
          let cameraPose_fixedCameraFrame = cameraPoseOf ex rvec tvec in
          bindE (markersLoop goodMatches3dPos inliers) (\<lambda>_.
            if r' < 0 then Inr (- 5, est, kinectDepthImage)
            else if reprojectionError > reprojectionErrorDiscardThreshold p
            then Inr (3, est, kinectDepthImage)
            else
              let phonePose_world = toWorld ex est timestamp cameraPose_fixedCameraFrame in
              if poseHeight phonePose_world > maxPoseHeight p
              then Inr (4, est, kinectDepthImage)
              else if poseHeight phonePose_world < minPoseHeight p
              then Inr (5, est, kinectDepthImage)
              else
                let phoneToCameraRotationAngle = computeAngleFromZAxis cameraPose_fixedCameraFrame in
                if phoneToCameraRotationAngle > phoneOrientationDifferenceThreshold_deg p
                then Inr (6, est, kinectDepthImage)
                else
                  bindE (if enableFeaturesMemory p
                         then (case saveInliersToMemory ex inliers goodMatches3dPos
                                      cameraPose_fixedCameraFrame goodMatches arcoreKeypoints
                                      arcoreDescriptors kinectDepthImage (featuresMemory est) of
                                 Inl (e, _) \<Rightarrow> Inl e
                               | Inr mem \<Rightarrow> Inr mem)
                         else Inr (featuresMemory est)) (\<lambda>mem.
                    Inr (0,
                         est\<lparr>featuresMemory := mem,
                             lastPoseEstimate := phonePose_world,
                             lastEstimateMatchesNumber := int (length goodMatches),
                             lastEstimateReprojectionError := reprojectionError,
                             didComputeEstimate := True\<rparr>,
                         kinectDepthImage)))))"

text \<open>
  The end of \<^verbatim>\<open>update\<close> on its own, after the last gate: the inliers are saved
  when the feature memory is enabled, then the estimate is assigned and 0 is returned.
\<close>

definition acceptEstimate ::
  "'fm externals \<Rightarrow> KeyPoint list \<Rightarrow> descriptors \<Rightarrow> nat \<Rightarrow> DMatch list \<Rightarrow> point3f list
     \<Rightarrow> depth_img \<Rightarrow> 'fm estimator \<Rightarrow> vec3 \<Rightarrow> vec3 \<Rightarrow> real \<Rightarrow> int list
     \<Rightarrow> exception + (int \<times> 'fm estimator \<times> depth_img)" where
  "acceptEstimate ex arcoreKeypoints arcoreDescriptors timestamp goodMatches goodMatches3dPos
       kinectDepthImage est rvec tvec reprojectionError inliers =
     bindE (if enableFeaturesMemory (params est)
            then (case saveInliersToMemory ex inliers goodMatches3dPos (cameraPoseOf ex rvec tvec)
                         goodMatches arcoreKeypoints arcoreDescriptors kinectDepthImage
                         (featuresMemory est) of
                    Inl (e, _) \<Rightarrow> Inl e
                  | Inr mem \<Rightarrow> Inr mem)
            else Inr (featuresMemory est)) (\<lambda>mem.
       Inr (0,
            est\<lparr>featuresMemory := mem,
                lastPoseEstimate := toWorld ex est timestamp (cameraPoseOf ex rvec tvec),
                lastEstimateMatchesNumber := int (length goodMatches),
                lastEstimateReprojectionError := reprojectionError,
                didComputeEstimate := True\<rparr>,
            kinectDepthImage))"

text \<open>The culling of the feature memory at the start of \<^verbatim>\<open>update\<close>.\<close>

definition cullMemory :: "'fm externals \<Rightarrow> depth_img \<Rightarrow> 'fm estimator \<Rightarrow> 'fm estimator" where
  "cullMemory ex kinectDepthImage est =
     (if enableFeaturesMemory (params est)
      then est\<lparr>featuresMemory :=
                 removeNonBackgroundFeatures ex kinectDepthImage (featuresMemory est)\<rparr>
      else est)"

text \<open>
  \<^verbatim>\<open>update\<close>. The image sizes, the monochrome and debug images and the frame id of the
  fixed camera only reach the debug output and are not arguments here. The result is the
  return value, the estimator and the depth image as left.
\<close>

definition update ::
  "'fm externals \<Rightarrow> KeyPoint list \<Rightarrow> descriptors \<Rightarrow> KeyPoint list \<Rightarrow> descriptors \<Rightarrow> camera_matrix
     \<Rightarrow> camera_matrix \<Rightarrow> depth_img \<Rightarrow> nat \<Rightarrow> 'fm estimator
     \<Rightarrow> exception + (int \<times> 'fm estimator \<times> depth_img)" where
  "update ex arcoreKeypoints arcoreDescriptors fixedKeypoints fixedDescriptors arcoreCameraMatrix
       fixedCameraMatrix kinectDepthImage timestamp est =
     (let est1 = cullMemory ex kinectDepthImage est in
      bindE (matchStage ex (params est) arcoreKeypoints arcoreDescriptors fixedKeypoints
               fixedDescriptors fixedCameraMatrix kinectDepthImage) (\<lambda>res.
        case res of
          Inl (rc, img) \<Rightarrow> Inr (rc, est1, img)
        | Inr (r, goodMatches, goodMatches3dPos, goodMatchesImgPos, img) \<Rightarrow>
            poseStage ex arcoreKeypoints arcoreDescriptors arcoreCameraMatrix timestamp r
              goodMatches goodMatches3dPos goodMatchesImgPos img est1))"

section \<open>\<^verbatim>\<open>computeOrbFeatures\<close> and \<^verbatim>\<open>featuresCallback\<close>\<close>

text \<open>
  ORB detection and description are OpenCV's; \<open>'img\<close> is the type of a decoded image.
  The result is the return value with the keypoints and descriptors left in the outputs.
\<close>

definition computeOrbFeatures ::
  "('img \<Rightarrow> KeyPoint list) \<Rightarrow> ('img \<Rightarrow> KeyPoint list \<Rightarrow> KeyPoint list \<times> descriptors) \<Rightarrow> 'img
     \<Rightarrow> int \<times> KeyPoint list \<times> descriptors" where
  "computeOrbFeatures orb_detect orb_compute img =
     (let keypoints = orb_detect img in
      if keypoints = [] then (- 1, keypoints, [])
      else
        let (keypoints', descriptors) = orb_compute img keypoints in
        if descriptors = [] then (- 2, keypoints', descriptors)
        else (0, keypoints', descriptors))"

text \<open>What \<^verbatim>\<open>readReceivedMessages_features\<close> decodes from the messages.\<close>

record 'img decoded =
  arcoreCameraMatrix :: camera_matrix
  arcoreDescriptors :: descriptors
  arcoreKeypoints :: "KeyPoint list"
  kinectCameraMatrix :: camera_matrix
  kinectCameraImg :: 'img
  kinectDepthImg :: depth_img

text \<open>
  \<^verbatim>\<open>featuresCallback\<close>, with the decoding of the messages (cv\_bridge) as the function
  \<open>readReceivedMessages_features\<close> and the stamp of the mobile message as \<open>timestamp\<close>.
\<close>

definition featuresCallback ::
  "'fm externals \<Rightarrow> ('msg \<Rightarrow> int \<times> 'img decoded) \<Rightarrow> ('img \<Rightarrow> KeyPoint list)
     \<Rightarrow> ('img \<Rightarrow> KeyPoint list \<Rightarrow> KeyPoint list \<times> descriptors) \<Rightarrow> 'msg \<Rightarrow> nat \<Rightarrow> 'fm estimator
     \<Rightarrow> exception + (int \<times> 'fm estimator)" where
  "featuresCallback ex readReceivedMessages_features orb_detect orb_compute msgs timestamp est =
     (let (r, dec) = readReceivedMessages_features msgs in
      if r < 0 then Inr (- 1, est)
      else
        let (r, fixedKeypoints, kinectDescriptors) =
              computeOrbFeatures orb_detect orb_compute (kinectCameraImg dec)
        in
        if r < 0 then Inr (- 2, est)
        else
          let featuresFromMemory =
                (if enableFeaturesMemory (params est) then getFeatures ex (featuresMemory est)
                 else []);
              fixedKeypoints' = fixedKeypoints @ map keypoint featuresFromMemory;
              kinectDescriptors' = kinectDescriptors @ map descriptor featuresFromMemory
          in
          bindE (update ex (arcoreKeypoints dec) (arcoreDescriptors dec) fixedKeypoints'
                   kinectDescriptors' (arcoreCameraMatrix dec) (kinectCameraMatrix dec)
                   (kinectDepthImg dec) timestamp est) (\<lambda>(u, est', img).
            Inr (10 * u, est')))"

section \<open>Names for the statements about the filter\<close>










section \<open>Names for the statements about \<^verbatim>\<open>update\<close>\<close>

text \<open>
  The mean reprojection error that the loop leaves (0 when the loop throws), and the
  number of matches and of inliers that gates 1 and 2 require.
\<close>

definition reprojectionErrorOf ::
  "'fm externals \<Rightarrow> camera_matrix \<Rightarrow> point3f list \<Rightarrow> point2f list \<Rightarrow> vec3 \<Rightarrow> vec3 \<Rightarrow> int list \<Rightarrow> real" where
  "reprojectionErrorOf ex acam pts ips rvec tvec inliers =
     (case reprojectionErrorLoop ips (projectPoints ex pts rvec tvec acam) (length inliers) inliers 0 of
        Inl _ \<Rightarrow> 0 | Inr e \<Rightarrow> e)"

definition requiredMatches :: "'fm estimator \<Rightarrow> nat" where
  "requiredMatches est = max 4 (unat (minimumMatchesNumber (params est)))"

text \<open>
  The validator of the spec: the gates in their order, each with its outcome code, and
  the code of a failed solver between the second and the third.
\<close>

definition gateOutcome ::
  "'fm externals \<Rightarrow> 'fm estimator \<Rightarrow> camera_matrix \<Rightarrow> nat \<Rightarrow> DMatch list \<Rightarrow> point3f list \<Rightarrow> point2f list \<Rightarrow> int" where
  "gateOutcome ex est acam t gm pts ips =
     (case runSolver ex acam pts ips est of (rb, rvec, tvec, inliers) \<Rightarrow>
        if length gm < requiredMatches est then 1
        else if length inliers < requiredMatches est then 2
        else if \<not> rb then - 5
        else if reprojectionErrorOf ex acam pts ips rvec tvec inliers
                  > reprojectionErrorDiscardThreshold (params est) then 3
        else if poseHeight (toWorld ex est t (cameraPoseOf ex rvec tvec)) > maxPoseHeight (params est) then 4
        else if poseHeight (toWorld ex est t (cameraPoseOf ex rvec tvec)) < minPoseHeight (params est) then 5
        else if computeAngleFromZAxis (cameraPoseOf ex rvec tvec)
                  > phoneOrientationDifferenceThreshold_deg (params est) then 6
        else 0)"

text \<open>
  The inliers that the solver reported are positions of the correspondence lists and of
  the reprojected points: the bounds-checked reads of the two loops over the inliers
  succeed.
\<close>

definition inliersInRange ::
  "point3f list \<Rightarrow> point2f list \<Rightarrow> point2f list \<Rightarrow> int list \<Rightarrow> bool" where
  "inliersInRange pts ips reprojectedPoints inliers \<longleftrightarrow>
     list_all (\<lambda>i. 0 \<le> i \<and> nat i < length pts \<and> nat i < length ips
                \<and> nat i < length reprojectedPoints) inliers"

text \<open>
  For the feature memory: an inlier whose every bounds-checked read succeeds in the
  containers handed to \<^verbatim>\<open>saveInliersToMemory\<close>, the feature built for it, and the
  store after saving the features of a list of inliers in turn.
\<close>

definition validInlier ::
  "point3f list \<Rightarrow> DMatch list \<Rightarrow> KeyPoint list \<Rightarrow> descriptors \<Rightarrow> int \<Rightarrow> bool" where
  "validInlier pts gms kps ds i \<longleftrightarrow>
     0 \<le> i \<and> nat i < length pts \<and> nat i < length gms
     \<and> 0 \<le> trainIdx (gms ! nat i)
     \<and> nat (trainIdx (gms ! nat i)) < length kps
     \<and> nat (trainIdx (gms ! nat i)) < length ds"

definition savedFeature ::
  "point3f list \<Rightarrow> pose \<Rightarrow> DMatch list \<Rightarrow> KeyPoint list \<Rightarrow> descriptors \<Rightarrow> depth_img \<Rightarrow> int
     \<Rightarrow> Feature" where
  "savedFeature pts camPose gms kps ds img i =
     inlierFeature (pts ! nat i) camPose (kps ! nat (trainIdx (gms ! nat i)))
       (ds ! nat (trainIdx (gms ! nat i))) img"

definition saveAll ::
  "'fm externals \<Rightarrow> point3f list \<Rightarrow> pose \<Rightarrow> DMatch list \<Rightarrow> KeyPoint list \<Rightarrow> descriptors
     \<Rightarrow> depth_img \<Rightarrow> 'fm \<Rightarrow> int list \<Rightarrow> 'fm" where
  "saveAll ex pts camPose gms kps ds img mem inls =
     foldl (\<lambda>mem i. saveFeature ex (savedFeature pts camPose gms kps ds img i) mem) mem inls"

text \<open>
  The features that \<^verbatim>\<open>featuresCallback\<close> appends to the fixed side, and the condition
  that a candidate reaches gate 5: it passes gates 1 to 4, with a solver that succeeded
  and reported inliers in range.
\<close>

definition memoryFeatures :: "'fm externals \<Rightarrow> 'fm estimator \<Rightarrow> Feature list" where
  "memoryFeatures ex est =
     (if enableFeaturesMemory (params est) then getFeatures ex (featuresMemory est) else [])"

definition reachesOrientationGate ::
  "'fm externals \<Rightarrow> 'fm estimator \<Rightarrow> camera_matrix \<Rightarrow> nat \<Rightarrow> DMatch list \<Rightarrow> point3f list
     \<Rightarrow> point2f list \<Rightarrow> bool" where
  "reachesOrientationGate ex est acam t gm pts ips =
     (case runSolver ex acam pts ips est of (rb, rvec, tvec, inliers) \<Rightarrow>
        requiredMatches est \<le> length gm
        \<and> requiredMatches est \<le> length inliers
        \<and> inliersInRange pts ips (projectPoints ex pts rvec tvec acam) inliers
        \<and> rb
        \<and> reprojectionErrorOf ex acam pts ips rvec tvec inliers
             \<le> reprojectionErrorDiscardThreshold (params est)
        \<and> poseHeight (toWorld ex est t (cameraPoseOf ex rvec tvec)) \<le> maxPoseHeight (params est)
        \<and> minPoseHeight (params est) \<le> poseHeight (toWorld ex est t (cameraPoseOf ex rvec tvec)))"

text \<open>A quaternion of norm one.\<close>

definition unitQuaternion :: "quaternion \<Rightarrow> bool" where
  "unitQuaternion q \<longleftrightarrow> qx q * qx q + qy q * qy q + qz q * qz q + qw q * qw q = 1"

section \<open>A concrete environment\<close>

text \<open>
  One instance of every external, to run the model on concrete inputs. The matcher is the
  brute-force matcher with the Hamming norm: for every query descriptor the first train
  descriptor at the least distance; an empty query set gives no match, and an empty train
  set fails the matcher's own assertion on the descriptor width.
\<close>

definition popCount :: "8 word \<Rightarrow> nat" where
  "popCount w = length (filter (bit w) [0..<8])"

definition hammingDistance :: "descriptor \<Rightarrow> descriptor \<Rightarrow> nat" where
  "hammingDistance a b = sum_list (map (\<lambda>(x, y). popCount (x XOR y)) (zip a b))"

fun bestTrain :: "descriptor \<Rightarrow> nat \<times> nat \<Rightarrow> nat \<Rightarrow> descriptors \<Rightarrow> nat \<times> nat" where
  "bestTrain q best j [] = best"
| "bestTrain q best j (t # ts) =
     bestTrain q (if hammingDistance q t < snd best then (j, hammingDistance q t) else best)
       (Suc j) ts"

fun matchQueries :: "nat \<Rightarrow> descriptors \<Rightarrow> descriptor \<Rightarrow> descriptors \<Rightarrow> DMatch list" where
  "matchQueries i [] t0 ts = []"
| "matchQueries i (q # qs) t0 ts =
     (case bestTrain q (0, hammingDistance q t0) 1 ts of
        (j, d) \<Rightarrow> \<lparr>queryIdx = int i, trainIdx = int j, distance = real d\<rparr>
                    # matchQueries (Suc i) qs t0 ts)"

definition bfMatcher_hamming :: "descriptors \<Rightarrow> descriptors \<Rightarrow> exception + DMatch list" where
  "bfMatcher_hamming query train =
     (if query = [] then Inr []
      else case train of [] \<Rightarrow> Inl CvAssertion | t0 # ts \<Rightarrow> Inr (matchQueries 0 query t0 ts))"

text \<open>
  Modelled from the spec: the body of \<^verbatim>\<open>get3dPoint\<close> is missing; the spec has the
  standard pinhole inverse projection of a pixel and its depth in millimetres.
\<close>

definition get3dPoint_spec ::
  "int \<Rightarrow> int \<Rightarrow> int \<Rightarrow> real \<Rightarrow> real \<Rightarrow> real \<Rightarrow> real \<Rightarrow> point3f" where
  "get3dPoint_spec x y depth_mm focalLengthX focalLengthY principalPointX principalPointY =
     (let z = of_int depth_mm / 1000
      in ((of_int x - principalPointX) * z / focalLengthX,
          (of_int y - principalPointY) * z / focalLengthY, z))"

text \<open>
  A solver that reports the identity pose with every correspondence as an inlier, and the
  projection of the points by a camera at the identity pose.
\<close>

definition identitySolver ::
  "point3f list \<Rightarrow> point2f list \<Rightarrow> camera_matrix \<Rightarrow> vec3 \<Rightarrow> vec3 \<Rightarrow> bool \<Rightarrow> real \<Rightarrow> real \<Rightarrow> real
     \<Rightarrow> bool \<times> vec3 \<times> vec3 \<times> int list" where
  "identitySolver pts ips cam rvec tvec useGuess iterations reprojErr confidence =
     (True, (0, 0, 0), (0, 0, 0), map int [0..<length pts])"

definition projectIdentity :: "point3f list \<Rightarrow> vec3 \<Rightarrow> vec3 \<Rightarrow> camera_matrix \<Rightarrow> point2f list" where
  "projectIdentity pts rvec tvec cam =
     map (\<lambda>(X, Y, Z). (focal_x cam * X / Z + principal_x cam,
                        focal_y cam * Y / Z + principal_y cam)) pts"

definition identityQuaternion :: quaternion where
  "identityQuaternion = \<lparr>qx = 0, qy = 0, qz = 0, qw = 1\<rparr>"

definition quatConj :: "quaternion \<Rightarrow> quaternion" where
  "quatConj q = \<lparr>qx = - qx q, qy = - qy q, qz = - qz q, qw = qw q\<rparr>"

definition quatMul :: "quaternion \<Rightarrow> quaternion \<Rightarrow> quaternion" where
  "quatMul a b =
     \<lparr>qx = qw a * qx b + qx a * qw b + qy a * qz b - qz a * qy b,
      qy = qw a * qy b - qx a * qz b + qy a * qw b + qz a * qx b,
      qz = qw a * qz b + qx a * qy b - qy a * qx b + qz a * qw b,
      qw = qw a * qw b - qx a * qx b - qy a * qy b - qz a * qz b\<rparr>"

definition vecAdd :: "vec3 \<Rightarrow> vec3 \<Rightarrow> vec3" where
  "vecAdd u v = (case (u, v) of ((a, b, c), (a', b', c')) \<Rightarrow> (a + a', b + b', c + c'))"

definition vecNeg :: "vec3 \<Rightarrow> vec3" where
  "vecNeg u = (case u of (a, b, c) \<Rightarrow> (- a, - b, - c))"

text \<open>The inverse of a rigid transformation, and the composition that tf2 applies to a pose.\<close>

definition invertPose_rigid :: "pose \<Rightarrow> pose" where
  "invertPose_rigid p =
     \<lparr>position = quatRotate (quatConj (orientation p)) (vecNeg (position p)),
      orientation = quatConj (orientation p)\<rparr>"

definition doTransform_rigid :: "pose_stamped \<Rightarrow> transform_stamped \<Rightarrow> pose_stamped" where
  "doTransform_rigid ps t =
     ps\<lparr>ps_pose :=
          \<lparr>position = vecAdd (quatRotate (rotation t) (position (ps_pose ps))) (translation t),
           orientation = quatMul (rotation t) (orientation (ps_pose ps))\<rparr>\<rparr>"

text \<open>
  The quaternion of a rotation vector (axis times angle), as \<^verbatim>\<open>cv::Rodrigues\<close> and
  the conversion to a ROS pose give it.
\<close>

definition rotationVectorToQuaternion :: "vec3 \<Rightarrow> quaternion" where
  "rotationVectorToQuaternion rvec =
     (case rvec of (rx, ry, rz) \<Rightarrow>
        let theta = sqrt (rx * rx + ry * ry + rz * rz) in
        if theta = 0 then identityQuaternion
        else \<lparr>qx = rx / theta * sin (theta / 2), qy = ry / theta * sin (theta / 2),
              qz = rz / theta * sin (theta / 2), qw = cos (theta / 2)\<rparr>)"

text \<open>The feature memory as a list: saving appends, culling removes nothing.\<close>

definition env0 :: "Feature list externals" where
  "env0 =
     \<lparr>bfMatcher_match = bfMatcher_hamming,
      findNearestNonZeroPixel = findNearestNonZeroPixel_spec,
      findLowestNonZeroInRing = findLowestNonZeroInRing_spec,
      get3dPoint = get3dPoint_spec,
      solvePnPRansac = identitySolver,
      projectPoints = projectIdentity,
      tfPoseToOpenCvPose = (\<lambda>p. ((0, 0, 0), position p)),
      opencvPoseToRosPose =
        (\<lambda>rvec tvec. \<lparr>position = tvec, orientation = rotationVectorToQuaternion rvec\<rparr>),
      invertPose = invertPose_rigid,
      doTransform = doTransform_rigid,
      removeNonBackgroundFeatures = (\<lambda>img mem. mem),
      saveFeature = (\<lambda>f mem. mem @ [f]),
      getFeatures = (\<lambda>mem. mem)\<rparr>"

text \<open>
  A fixed camera on the ceiling, three metres up, looking straight down: its optical (z)
  axis is the world's downward vertical.
\<close>

definition params0 :: estimator_params where
  "params0 =
     \<lparr>matchingThreshold = 25,
      keypointMinDistThreshold = 5,
      reprojectionErrorDiscardThreshold = 5,
      phoneOrientationDifferenceThreshold_deg = 45,
      minimumMatchesNumber = 4,
      enableFeaturesMemory = True,
      maxPoseHeight = 5,
      minPoseHeight = 0,
      pnpReprojectionError = 5,
      pnpConfidence = 99 / 100,
      pnpIterations = 1000\<rparr>"

definition est0 :: "Feature list estimator" where
  "est0 =
     \<lparr>params = params0,
      transformFixedCameraToWorld =
        \<lparr>translation = (0, 0, 3), rotation = \<lparr>qx = 1, qy = 0, qz = 0, qw = 0\<rparr>\<rparr>,
      fixed_sensor_name = ''kinect01'',
      featuresMemory = [],
      lastPoseEstimate =
        \<lparr>ps_pose = \<lparr>position = (0, 0, 0), orientation = identityQuaternion\<rparr>,
         frame_id = [], stamp = 0\<rparr>,
      lastEstimateMatchesNumber = 0,
      lastEstimateReprojectionError = 0,
      didComputeEstimate = False\<rparr>"

definition kp :: "real \<Rightarrow> real \<Rightarrow> KeyPoint" where
  "kp x y = \<lparr>pt = (x, y), kp_size = 31, kp_angle = 0, kp_response = 0, kp_octave = 0,
             kp_class_id = - 1\<rparr>"

definition dm :: "int \<Rightarrow> int \<Rightarrow> real \<Rightarrow> DMatch" where
  "dm q t d = \<lparr>queryIdx = q, trainIdx = t, distance = d\<rparr>"

text \<open>Four keypoints on a square of side ten, with four different one-byte descriptors.\<close>

definition squareKeypoints :: "KeyPoint list" where
  "squareKeypoints = [kp 0 0, kp 10 0, kp 0 10, kp 10 10]"

definition squareDescriptors :: descriptors where
  "squareDescriptors = [[1], [2], [4], [8]]"

definition flatDepth :: depth_img where
  "flatDepth = \<lparr>rows = 11, cols = 11, px = (\<lambda>_. 1000)\<rparr>"

definition unitCamera :: camera_matrix where
  "unitCamera = \<lparr>focal_x = 1, focal_y = 1, principal_x = 0, principal_y = 0\<rparr>"

text \<open>
  The run of the square: the matches, the reconstructed points, the pose the solver of
  \<open>env0\<close> reports and its image in the world frame, and an estimator whose ceiling
  for the pose height is two metres.
\<close>

definition squareMatches :: "DMatch list" where
  "squareMatches = [dm 0 0 0, dm 1 1 0, dm 2 2 0, dm 3 3 0]"

definition squarePoints3d :: "point3f list" where
  "squarePoints3d = [(0, 0, 1), (10, 0, 1), (0, 10, 1), (10, 10, 1)]"

definition squarePoints2d :: "point2f list" where
  "squarePoints2d = [(0, 0), (10, 0), (0, 10), (10, 10)]"

definition cameraPose0 :: pose where
  "cameraPose0 = \<lparr>position = (0, 0, 0), orientation = identityQuaternion\<rparr>"

definition worldPose0 :: "nat \<Rightarrow> pose_stamped" where
  "worldPose0 t =
     \<lparr>ps_pose = \<lparr>position = (0, 0, 3), orientation = \<lparr>qx = 1, qy = 0, qz = 0, qw = 0\<rparr>\<rparr>,
      frame_id = ''/world'', stamp = t\<rparr>"

definition lowCeiling :: "Feature list estimator" where
  "lowCeiling = est0\<lparr>params := params0\<lparr>maxPoseHeight := 2\<rparr>\<rparr>"

text \<open>
  Three of the four mobile keypoints only; the estimator that the accepted run of the
  square leaves at time \<open>t\<close>; and a decoder and an ORB extractor that return the square.
\<close>

definition triangleKeypoints :: "KeyPoint list" where
  "triangleKeypoints = [kp 0 0, kp 10 0, kp 0 10]"

definition triangleDescriptors :: descriptors where
  "triangleDescriptors = [[1], [2], [4]]"

definition triangleMatches :: "DMatch list" where
  "triangleMatches = [dm 0 0 0, dm 1 1 0, dm 2 2 0]"

definition trianglePoints3d :: "point3f list" where
  "trianglePoints3d = [(0, 0, 1), (10, 0, 1), (0, 10, 1)]"

definition trianglePoints2d :: "point2f list" where
  "trianglePoints2d = [(0, 0), (10, 0), (0, 10)]"

definition acceptedEstimator :: "nat \<Rightarrow> Feature list estimator" where
  "acceptedEstimator t =
     est0\<lparr>featuresMemory :=
            saveAll env0 squarePoints3d cameraPose0 squareMatches squareKeypoints
              squareDescriptors flatDepth [] [0, 1, 2, 3],
          lastPoseEstimate := worldPose0 t,
          lastEstimateMatchesNumber := 4,
          lastEstimateReprojectionError := 0,
          didComputeEstimate := True\<rparr>"

definition decode0 :: "unit \<Rightarrow> int \<times> unit decoded" where
  "decode0 msgs =
     (0, \<lparr>arcoreCameraMatrix = unitCamera, arcoreDescriptors = squareDescriptors,
          arcoreKeypoints = squareKeypoints, kinectCameraMatrix = unitCamera,
          kinectCameraImg = (), kinectDepthImg = flatDepth\<rparr>)"

definition detect0 :: "unit \<Rightarrow> KeyPoint list" where
  "detect0 img = squareKeypoints"

definition compute0 :: "unit \<Rightarrow> KeyPoint list \<Rightarrow> KeyPoint list \<times> descriptors" where
  "compute0 img kps = (kps, squareDescriptors)"

text \<open>
  A solver that reports a camera turned by half a turn about the x axis of the fixed
  camera (the mobile camera faces the fixed one), the environment with that solver, and
  the pose it gives in the frame of the fixed camera.
\<close>

definition facingSolver ::
  "point3f list \<Rightarrow> point2f list \<Rightarrow> camera_matrix \<Rightarrow> vec3 \<Rightarrow> vec3 \<Rightarrow> bool \<Rightarrow> real \<Rightarrow> real \<Rightarrow> real
     \<Rightarrow> bool \<times> vec3 \<times> vec3 \<times> int list" where
  "facingSolver pts ips cam rvec tvec useGuess iterations reprojErr confidence =
     (True, (pi, 0, 0), (0, 0, 0), map int [0..<length pts])"

definition facingEnv :: "Feature list externals" where
  "facingEnv = env0\<lparr>solvePnPRansac := facingSolver\<rparr>"

definition facingPose :: pose where
  "facingPose = \<lparr>position = (0, 0, 0), orientation = \<lparr>qx = - 1, qy = 0, qz = 0, qw = 0\<rparr>\<rparr>"

text \<open>
  A fixed camera on a wall, a metre and a half up, looking horizontally along the y axis
  of the world (the rotation is a quarter turn about x, the image's downward axis going
  to the world's downward vertical); the world pose of a candidate whose pose is the
  identity in that camera's frame; and the estimator that the accepted run of the square
  leaves at time \<open>t\<close>.
\<close>

definition wallCamera :: "Feature list estimator" where
  "wallCamera =
     est0\<lparr>transformFixedCameraToWorld :=
            \<lparr>translation = (0, 0, 3 / 2),
             rotation = \<lparr>qx = - (sqrt 2 / 2), qy = 0, qz = 0, qw = sqrt 2 / 2\<rparr>\<rparr>\<rparr>"

definition wallPose :: "nat \<Rightarrow> pose_stamped" where
  "wallPose t =
     \<lparr>ps_pose = \<lparr>position = (0, 0, 3 / 2),
                  orientation = \<lparr>qx = - (sqrt 2 / 2), qy = 0, qz = 0, qw = sqrt 2 / 2\<rparr>\<rparr>,
      frame_id = ''/world'', stamp = t\<rparr>"

definition acceptedWall :: "nat \<Rightarrow> Feature list estimator" where
  "acceptedWall t =
     wallCamera\<lparr>featuresMemory :=
                  saveAll env0 squarePoints3d cameraPose0 squareMatches squareKeypoints
                    squareDescriptors flatDepth [] [0, 1, 2, 3],
                lastPoseEstimate := wallPose t,
                lastEstimateMatchesNumber := 4,
                lastEstimateReprojectionError := 0,
                didComputeEstimate := True\<rparr>"

text \<open>
  A fixed side with one more keypoint than the mobile side: the square comes after a
  fifth keypoint, so the matches of the square have the train indices 1 to 4. Then the
  estimator \<open>est0\<close> without the feature memory, and what the accepted run leaves of it.
\<close>

definition shiftedKeypoints :: "KeyPoint list" where
  "shiftedKeypoints = [kp 5 5, kp 0 0, kp 10 0, kp 0 10, kp 10 10]"

definition shiftedDescriptors :: descriptors where
  "shiftedDescriptors = [[16], [1], [2], [4], [8]]"

definition shiftedMatches :: "DMatch list" where
  "shiftedMatches = [dm 0 1 0, dm 1 2 0, dm 2 3 0, dm 3 4 0]"

definition noMemory :: "Feature list estimator" where
  "noMemory = est0\<lparr>params := params0\<lparr>enableFeaturesMemory := False\<rparr>\<rparr>"

definition acceptedNoMemory :: "nat \<Rightarrow> Feature list estimator" where
  "acceptedNoMemory t =
     noMemory\<lparr>lastPoseEstimate := worldPose0 t,
              lastEstimateMatchesNumber := 4,
              lastEstimateReprojectionError := 0,
              didComputeEstimate := True\<rparr>"

text \<open>
  Depth images of one row. \<open>stepDepth\<close> has two pixels, 500 and 300; \<open>stepDepth2\<close> is
  \<open>stepDepth\<close> with 300 written at the first pixel, \<open>stepDepth3\<close> with 300 written at
  both. \<open>farDepth\<close> has 156 pixels, all
  zero but 900 at column 149 and 300 at column 155; \<open>farDepth2\<close> and \<open>farDepth3\<close> have
  300 written at column 50, then at column 0.
\<close>

definition stepDepth :: depth_img where
  "stepDepth = \<lparr>rows = 1, cols = 2, px = (\<lambda>_. 0)((0, 0) := 500, (1, 0) := 300)\<rparr>"

definition stepDepth2 :: depth_img where
  "stepDepth2 = stepDepth\<lparr>px := (px stepDepth)((0, 0) := 300)\<rparr>"

definition stepDepth3 :: depth_img where
  "stepDepth3 = stepDepth2\<lparr>px := (px stepDepth2)((1, 0) := 300)\<rparr>"

definition farDepth :: depth_img where
  "farDepth = \<lparr>rows = 1, cols = 156, px = (\<lambda>_. 0)((149, 0) := 900, (155, 0) := 300)\<rparr>"

definition farDepth2 :: depth_img where
  "farDepth2 = \<lparr>rows = 1, cols = 156,
                 px = (\<lambda>_. 0)((149, 0) := 900, (155, 0) := 300, (50, 0) := 300)\<rparr>"

definition farDepth3 :: depth_img where
  "farDepth3 = \<lparr>rows = 1, cols = 156,
                 px = (\<lambda>_. 0)((149, 0) := 900, (155, 0) := 300, (50, 0) := 300, (0, 0) := 300)\<rparr>"

text \<open>
  Inputs for the filter: two mobile keypoints one pixel apart whose matches go to fixed
  keypoints far from each other, then two more one pixel apart whose matches go to fixed
  keypoints one pixel apart.
\<close>

definition filterArcoreKeypoints :: "KeyPoint list" where
  "filterArcoreKeypoints = [kp 0 0, kp 0 1, kp 50 50, kp 50 51]"

definition filterFixedKeypoints :: "KeyPoint list" where
  "filterFixedKeypoints = [kp 0 0, kp 90 90, kp 50 50, kp 50 51]"

definition filterInput :: "DMatch list" where
  "filterInput = [dm 0 0 10, dm 1 1 12, dm 2 2 14, dm 3 3 16]"




section \<open>Properties of the Filter/Merger\<close>











text \<open>An integer below \<open>2\<^sup>2\<^sup>4\<close> in absolute value is a \<^verbatim>\<open>float\<close>.\<close>

lemma cvRound_of_int: "cvRound (of_int n) = n"
  by (simp add: cvRound_def)

lemma toFloat_of_int:
  assumes "\<bar>n\<bar> < 16777216"
  shows "toFloat (of_int n) = of_int n"
proof (cases "n = 0")
  case True
  then show ?thesis by (simp add: toFloat_def)
next
  case False
  define x :: real where "x = of_int n"
  define e where "e = \<lfloor>log 2 \<bar>x\<bar>\<rfloor>"
  have x1: "1 \<le> \<bar>x\<bar>" using False by (simp add: x_def)
  have "real_of_int \<bar>n\<bar> < 16777216" using assms by linarith
  then have x2: "\<bar>x\<bar> < 2 ^ 24" by (simp add: x_def)
  have "0 \<le> log 2 \<bar>x\<bar>" using x1 by simp
  then have e0: "0 \<le> e" by (simp add: e_def)
  have "log 2 \<bar>x\<bar> < 24"
    using x1 x2 by (subst log_less_iff) (simp_all add: powr_realpow [symmetric])
  then have e1: "e \<le> 23" unfolding e_def by linarith
  define k where "k = nat (23 - e)"
  have ek: "real_of_int e - 23 = - real k" using e1 by (simp add: k_def)
  have u: "2 powr (real_of_int e - 23) = 1 / (2 :: real) ^ k"
    unfolding ek by (simp add: powr_minus powr_realpow inverse_eq_divide)
  have q: "x / (1 / 2 ^ k) = of_int (n * 2 ^ k)" by (simp add: x_def)
  have "toFloat x = of_int (cvRound (x / (1 / 2 ^ k))) * (1 / 2 ^ k)"
    using False by (simp add: toFloat_def x_def Let_def e_def [symmetric, unfolded x_def] u)
  also have "\<dots> = x" unfolding q cvRound_of_int by (simp add: x_def)
  finally show ?thesis by (simp add: x_def)
qed

lemma toFloat_numeral:
  "(numeral k :: int) < 16777216 \<Longrightarrow> toFloat (numeral k) = numeral k"
  "toFloat 0 = 0" "toFloat 1 = 1"
  using toFloat_of_int [of "numeral k"] toFloat_of_int [of 1] by (simp_all add: toFloat_def)



text \<open>Evaluation of the distance test on concrete points.\<close>

lemma sqrt_le_iff_sq: "0 \<le> x \<Longrightarrow> sqrt x \<le> t \<longleftrightarrow> 0 \<le> t \<and> x \<le> t * t"
  by (metis abs_of_nonneg order_trans real_sqrt_abs2 real_sqrt_ge_zero real_sqrt_le_iff)

lemma withinDist_eval:
  "withinDist thr a b \<longleftrightarrow>
     0 \<le> thr \<and> (fst a - fst b) * (fst a - fst b) + (snd a - snd b) * (snd a - snd b) \<le> thr * thr"
  unfolding withinDist_def norm_pt_def pt_sub_def by (simp add: sqrt_le_iff_sq)

lemma upt_Cons: "i < j \<Longrightarrow> [i..<j] = i # [Suc i..<j]"
  by (simp add: upt_rec)









text \<open>
  C5. The filter is not idempotent. On \<open>filterInput\<close> the first iteration erases the
  contradictory pair at positions 0 and 1, the counter moves on to 1, and the match that
  moved to position 0 is never a representative: the output still holds two matches with
  the same origin and the same destination. A second run merges them.
\<close>

theorem filterMatches_second_run_differs:
  "filterMatches params0 filterInput [] filterArcoreKeypoints filterFixedKeypoints
     = Inr (0, [dm 2 2 14, dm 3 3 16])
   \<and> filterMatches params0 [dm 2 2 14, dm 3 3 16] [] filterArcoreKeypoints filterFixedKeypoints
     = Inr (0, [dm 2 2 15])"
  by (simp add: filterMatches_def mergeLoop.simps filterStep_def bindE_def at_vec_def
      filterInput_def filterArcoreKeypoints_def filterFixedKeypoints_def dm_def kp_def
      params0_def withinDist_eval upt_Cons erase_at_def toFloat_numeral)

section \<open>Properties of the Depth Resolver\<close>

lemma fixDepthAt_px:
  "px (fixDepthAt fnn flr imgPos img) = (px img)(toPoint2i imgPos := px img (ringPixel fnn flr imgPos img))"
  by (simp add: fixDepthAt_def ringPixel_def Let_def)

lemma fixDepthAt_dims:
  "rows (fixDepthAt fnn flr imgPos img) = rows img" "cols (fixDepthAt fnn flr imgPos img) = cols img"
  by (simp_all add: fixDepthAt_def Let_def)

lemma repairStep_other:
  "q \<noteq> fixedPixel fks m \<Longrightarrow> px (repairStep fnn flr fks img m) q = px img q"
  by (simp add: repairStep_def fixedPixel_def fixDepthAt_px)

lemma repairStep_range: "range (px (repairStep fnn flr fks img m)) \<subseteq> range (px img)"
  by (auto simp: repairStep_def fixDepthAt_px)

lemma foldl_repair_other:
  "\<forall>m\<in>set ms. q \<noteq> fixedPixel fks m \<Longrightarrow> px (foldl (repairStep fnn flr fks) img ms) q = px img q"
  by (induction ms arbitrary: img) (simp_all add: repairStep_other)

lemma foldl_repair_range: "range (px (foldl (repairStep fnn flr fks) img ms)) \<subseteq> range (px img)"
proof (induction ms arbitrary: img)
  case Nil
  then show ?case by simp
next
  case (Cons m ms)
  have "range (px (foldl (repairStep fnn flr fks) (repairStep fnn flr fks img m) ms))
          \<subseteq> range (px (repairStep fnn flr fks img m))"
    by (rule Cons.IH)
  also have "\<dots> \<subseteq> range (px img)" by (rule repairStep_range)
  finally show ?case by simp
qed

lemma fixLoop_run:
  assumes "fixLoop fnn flr fks ms img acc = Inr (img', out)"
  shows "img' = foldl (repairStep fnn flr fks) img ms
       \<and> out = acc @ map (nth ms)
                 (filter (\<lambda>i. px (depthAfter fnn flr fks img ms (Suc i)) (fixedPixel fks (ms ! i)) \<noteq> 0)
                    [0..<length ms])
       \<and> list_all (\<lambda>m. 0 \<le> trainIdx m \<and> nat (trainIdx m) < length fks) ms"
  using assms
proof (induction ms arbitrary: img acc)
  case Nil
  then show ?case by simp
next
  case (Cons m ms)
  from Cons.prems have v: "0 \<le> trainIdx m \<and> nat (trainIdx m) < length fks"
    by (auto simp: bindE_def at_vec_def split: if_splits)
  then have at: "at_vec fks (trainIdx m) = Inr (fks ! nat (trainIdx m))"
    by (simp add: at_vec_def)
  let ?img1 = "repairStep fnn flr fks img m"
  let ?acc1 = "if px ?img1 (fixedPixel fks m) = 0 then acc else acc @ [m]"
  have run: "fixLoop fnn flr fks ms ?img1 ?acc1 = Inr (img', out)"
    using Cons.prems by (simp add: bindE_def at Let_def repairStep_def fixedPixel_def split: if_splits)
  note IH = Cons.IH [OF run]
  have da: "depthAfter fnn flr fks img (m # ms) (Suc (Suc i)) = depthAfter fnn flr fks ?img1 ms (Suc i)" for i
    by (simp add: depthAfter_def)
  have da0: "depthAfter fnn flr fks img (m # ms) (Suc 0) = ?img1"
    by (simp add: depthAfter_def)
  have idx: "[0..<length (m # ms)] = 0 # map Suc [0..<length ms]"
    by (simp add: upt_conv_Cons map_Suc_upt del: upt_Suc)
  show ?case
    unfolding idx using IH v
    by (simp add: filter_map comp_def da da0)
qed

lemma map_nth_filter: "map (nth xs) (filter (\<lambda>i. P (xs ! i)) [0..<length xs]) = filter P xs"
proof (induction xs)
  case Nil
  then show ?case by simp
next
  case (Cons x xs)
  have idx: "[0..<length (x # xs)] = 0 # map Suc [0..<length xs]"
    by (simp add: upt_conv_Cons map_Suc_upt del: upt_Suc)
  show ?case unfolding idx using Cons.IH by (simp add: filter_map comp_def)
qed

lemma depthAfter_final:
  assumes d: "distinct (map (fixedPixel fks) ms)" and i: "i < length ms"
  shows "px (depthAfter fnn flr fks img ms (Suc i)) (fixedPixel fks (ms ! i))
       = px (foldl (repairStep fnn flr fks) img ms) (fixedPixel fks (ms ! i))"
proof -
  have split: "ms = take (Suc i) ms @ drop (Suc i) ms" by simp
  have other: "\<forall>m\<in>set (drop (Suc i) ms). fixedPixel fks (ms ! i) \<noteq> fixedPixel fks m"
  proof
    fix m assume "m \<in> set (drop (Suc i) ms)"
    then obtain k where k: "k < length (drop (Suc i) ms)" "m = drop (Suc i) ms ! k"
      by (auto simp: in_set_conv_nth)
    then have m: "m = ms ! (Suc i + k)" and lt: "Suc i + k < length ms" by auto
    have "map (fixedPixel fks) ms ! i \<noteq> map (fixedPixel fks) ms ! (Suc i + k)"
      using d i lt by (simp add: nth_eq_iff_index_eq del: nth_map)
    then show "fixedPixel fks (ms ! i) \<noteq> fixedPixel fks m" using i lt m by simp
  qed
  have "foldl (repairStep fnn flr fks) img ms
      = foldl (repairStep fnn flr fks) (depthAfter fnn flr fks img ms (Suc i)) (drop (Suc i) ms)"
    by (subst split) (simp add: depthAfter_def del: append_take_drop_id)
  then show ?thesis using foldl_repair_other [OF other] by simp
qed

lemma sqrt_lt_iff_sq: "0 \<le> x \<Longrightarrow> t \<le> sqrt x \<longleftrightarrow> t \<le> 0 \<or> t * t \<le> x"
  by (smt (verit) mult_nonneg_nonneg real_sqrt_ge_zero real_sqrt_le_iff real_sqrt_mult_self abs_of_nonneg real_sqrt_abs2) 

lemma distLe_eval:
  "distLe x y q r \<longleftrightarrow>
     0 \<le> r \<and> real_of_int ((fst q - x) * (fst q - x) + (snd q - y) * (snd q - y)) \<le> r * r"
  unfolding distLe_def pixDist_def hypot_def by (simp add: sqrt_le_iff_sq)

lemma distGe_eval:
  "distGe x y q r \<longleftrightarrow>
     r \<le> 0 \<or> r * r \<le> real_of_int ((fst q - x) * (fst q - x) + (snd q - y) * (snd q - y))"
  unfolding distGe_def pixDist_def hypot_def by (simp add: sqrt_lt_iff_sq)

lemma nearer_eval:
  "nearer x y q b \<longleftrightarrow>
     (fst q - x) * (fst q - x) + (snd q - y) * (snd q - y)
       < (fst b - x) * (fst b - x) + (snd b - y) * (snd b - y)"
proof -
  have "real_of_int ((fst q - x) * (fst q - x) + (snd q - y) * (snd q - y))
          < real_of_int ((fst b - x) * (fst b - x) + (snd b - y) * (snd b - y))
        \<longleftrightarrow> (fst q - x) * (fst q - x) + (snd q - y) * (snd q - y)
          < (fst b - x) * (fst b - x) + (snd b - y) * (snd b - y)"
    by (rule of_int_less_iff)
  then show ?thesis
    unfolding nearer_def pixDist_def hypot_def by (simp add: real_sqrt_less_iff)
qed

lemma hypot_0_right: "hypot a 0 = \<bar>a\<bar>"
  by (simp add: hypot_def)

lemma truncInt_of_int: "truncInt (of_int n) = n"
  by (simp add: truncInt_def)

lemma cvRound_numeral [simp]: "cvRound (numeral n) = numeral n" "cvRound 0 = 0" "cvRound 1 = 1"
  using cvRound_of_int [of "numeral n"] cvRound_of_int [of 0] cvRound_of_int [of 1] by simp_all

lemma truncInt_numeral [simp]: "truncInt (numeral n) = numeral n" "truncInt 0 = 0" "truncInt 1 = 1"
  using truncInt_of_int [of "numeral n"] truncInt_of_int [of 0] truncInt_of_int [of 1] by simp_all

lemma upto_from_0: "[0..numeral n] = 0 # [1..numeral n]"
  by (simp add: upto.simps)

lemma upto_from_1: "[1..numeral n] = (if (1::int) \<le> numeral n then 1 # [2..numeral n] else [])"
  by (subst upto.simps) simp

lemma upto_0_0: "[0..0::int] = [0]" by (simp add: upto.simps)
lemma upto_0_1: "[0..1::int] = [0, 1]" by (simp add: upto.simps)

lemmas pix_eval = pixelsOf_def upto_from_0 upto_from_1 upto_0_0 upto_0_1

lemmas helper_eval = ringPixel_def Let_def findNearestNonZeroPixel_spec_def
  findLowestNonZeroInRing_spec_def pix_eval distLe_eval distGe_eval nearer_eval hypot_0_right

lemma far_ring1:
  "ringPixel findNearestNonZeroPixel_spec findLowestNonZeroInRing_spec (0, 0) farDepth = (0, 0)"
  by (simp add: helper_eval farDepth_def)

lemma far_ring2:
  "ringPixel findNearestNonZeroPixel_spec findLowestNonZeroInRing_spec (50, 0) farDepth = (155, 0)"
  by (simp add: helper_eval farDepth_def)

lemma far_ring3:
  "ringPixel findNearestNonZeroPixel_spec findLowestNonZeroInRing_spec (0, 0) farDepth2 = (50, 0)"
  by (simp add: helper_eval farDepth2_def)

lemma fixDepthAt_eq:
  "fixDepthAt fnn flr imgPos img
     = img\<lparr>px := (px img)(toPoint2i imgPos := px img (ringPixel fnn flr imgPos img))\<rparr>"
  by (simp add: fixDepthAt_def ringPixel_def Let_def)

lemma far_step1:
  "fixDepthAt findNearestNonZeroPixel_spec findLowestNonZeroInRing_spec (0, 0) farDepth = farDepth"
  unfolding fixDepthAt_eq far_ring1 by (simp add: toPoint2i_def)

lemma far_step2:
  "fixDepthAt findNearestNonZeroPixel_spec findLowestNonZeroInRing_spec (50, 0) farDepth = farDepth2"
  unfolding fixDepthAt_eq far_ring2 by (simp add: toPoint2i_def farDepth_def farDepth2_def)

lemma far_step3:
  "fixDepthAt findNearestNonZeroPixel_spec findLowestNonZeroInRing_spec (0, 0) farDepth2 = farDepth3"
  unfolding fixDepthAt_eq far_ring3 by (simp add: toPoint2i_def farDepth2_def farDepth3_def)

lemma far_values:
  "px farDepth (0, 0) = 0" "px farDepth2 (50, 0) = 300" "px farDepth3 (0, 0) = 300"
  "px farDepth (50, 0) = 0"
  by (simp_all add: farDepth_def farDepth2_def farDepth3_def)

lemma far_run:
  "fixMatchesDepthOrDrop findNearestNonZeroPixel_spec findLowestNonZeroInRing_spec
        [dm 0 0 0, dm 1 1 0, dm 2 0 0] [kp 0 0, kp 50 0] farDepth
   = Inr (0, farDepth3, [dm 1 1 0, dm 2 0 0])"
  by (simp add: fixMatchesDepthOrDrop_def bindE_def at_vec_def dm_def kp_def Let_def
      far_step1 far_step2 far_step3 far_values toPoint2i_def)

lemma step_ring:
  "ringPixel findNearestNonZeroPixel_spec findLowestNonZeroInRing_spec (0, 0) stepDepth = (1, 0)"
  by (simp add: helper_eval stepDepth_def)

lemma step_run:
  "fixMatchesDepthOrDrop findNearestNonZeroPixel_spec findLowestNonZeroInRing_spec
        [dm 0 0 0] [kp 0 0] stepDepth
   = Inr (0, stepDepth2, [dm 0 0 0])"
proof -
  have v: "px stepDepth (1, 0) = 300" "px stepDepth2 (0, 0) = 300"
    by (simp_all add: stepDepth_def stepDepth2_def)
  have st: "fixDepthAt findNearestNonZeroPixel_spec findLowestNonZeroInRing_spec (0, 0) stepDepth
              = stepDepth2"
    unfolding fixDepthAt_eq step_ring by (simp add: toPoint2i_def v stepDepth2_def)
  show ?thesis
    by (simp add: fixMatchesDepthOrDrop_def bindE_def at_vec_def dm_def kp_def Let_def st v
        toPoint2i_def)
qed

lemma fixMatches_run:
  assumes "fixMatchesDepthOrDrop fnn flr ms fks img = Inr (r, img', out)"
  shows "r = 0" and "fixLoop fnn flr fks ms img [] = Inr (img', out)"
  using assms by (auto simp: fixMatchesDepthOrDrop_def bindE_def split: sum.splits)

lemma depthAfter_Suc:
  assumes "i < length ms"
  shows "depthAfter fnn flr fks img ms (Suc i)
           = repairStep fnn flr fks (depthAfter fnn flr fks img ms i) (ms ! i)"
  using assms by (simp add: depthAfter_def take_Suc_conv_app_nth)

lemma repairStep_px:
  "px (repairStep fnn flr fks im m)
     = (px im)(fixedPixel fks m := px im (ringPixel fnn flr (pt (fks ! nat (trainIdx m))) im))"
  by (simp add: repairStep_def fixedPixel_def fixDepthAt_px)

lemma two_run:
  "fixMatchesDepthOrDrop findNearestNonZeroPixel_spec findLowestNonZeroInRing_spec
        [dm 0 0 0, dm 1 1 0] [kp 0 0, kp 1 0] stepDepth
   = Inr (0, stepDepth3, [dm 0 0 0, dm 1 1 0])"
proof -
  have v: "px stepDepth (1, 0) = 300" "px stepDepth2 (0, 0) = 300" "px stepDepth3 (1, 0) = 300"
    by (simp_all add: stepDepth_def stepDepth2_def stepDepth3_def)
  have st: "fixDepthAt findNearestNonZeroPixel_spec findLowestNonZeroInRing_spec (0, 0) stepDepth
              = stepDepth2"
    unfolding fixDepthAt_eq step_ring by (simp add: toPoint2i_def v stepDepth2_def)
  have rg: "ringPixel findNearestNonZeroPixel_spec findLowestNonZeroInRing_spec (1, 0) stepDepth2
              = (0, 0)"
    by (simp add: helper_eval stepDepth_def stepDepth2_def)
  have st2: "fixDepthAt findNearestNonZeroPixel_spec findLowestNonZeroInRing_spec (1, 0) stepDepth2
              = stepDepth3"
    unfolding fixDepthAt_eq rg by (simp add: toPoint2i_def v stepDepth3_def)
  show ?thesis
    by (simp add: fixMatchesDepthOrDrop_def bindE_def at_vec_def dm_def kp_def Let_def st st2 v
        toPoint2i_def)
qed

text \<open>
  C2, as the code has it. The search and the write-back are not guarded by a test on the
  depth read: for every match the depth at its fixed-side pixel is overwritten with the
  depth at the pixel the ring search returned, whatever was there. The image left by the
  call is the image after that step for every input match in turn; a pixel that is not
  the fixed-side pixel of an input match keeps its value, and every value of the image
  after the call is a value the image had before.
\<close>

theorem fixMatchesDepthOrDrop_writes_every_match:
  assumes run: "fixMatchesDepthOrDrop fnn flr ms fks img = Inr (r, img', out)"
  shows "r = 0
       \<and> img' = foldl (repairStep fnn flr fks) img ms
       \<and> (\<forall>im m. px (repairStep fnn flr fks im m)
                    = (px im)(fixedPixel fks m :=
                         px im (ringPixel fnn flr (pt (fks ! nat (trainIdx m))) im)))
       \<and> (\<forall>q. (\<forall>m\<in>set ms. q \<noteq> fixedPixel fks m) \<longrightarrow> px img' q = px img q)
       \<and> range (px img') \<subseteq> range (px img)"
proof -
  note r = fixMatches_run [OF run]
  have img': "img' = foldl (repairStep fnn flr fks) img ms"
    using fixLoop_run [OF r(2)] by simp
  show ?thesis
    using r(1) img' foldl_repair_other [of ms _ fks fnn flr img]
      foldl_repair_range [of fnn flr fks img ms]
    by (simp add: repairStep_px)
qed

theorem fixMatchesDepthOrDrop_writes_every_match_witness:
  "fixMatchesDepthOrDrop findNearestNonZeroPixel_spec findLowestNonZeroInRing_spec
     [dm 0 0 0] [kp 0 0] stepDepth = Inr (0, stepDepth2, [dm 0 0 0])
   \<and> stepDepth2 = repairStep findNearestNonZeroPixel_spec findLowestNonZeroInRing_spec [kp 0 0]
                     stepDepth (dm 0 0 0)
   \<and> px stepDepth2 (1, 0) = px stepDepth (1, 0)
   \<and> range (px stepDepth2) \<subseteq> range (px stepDepth)"
proof -
  have fp: "fixedPixel [kp 0 0] (dm 0 0 0) = (0, 0)"
    by (simp add: fixedPixel_def dm_def kp_def toPoint2i_def)
  from fixMatchesDepthOrDrop_writes_every_match [OF step_run] fp show ?thesis
    using step_run by simp
qed

text \<open>
  C2 as stated fails: a pixel that reads 500 next to a pixel that reads 300 is the
  fixed-side pixel of a match, and the call leaves 300 there.
\<close>

theorem existing_depth_overwritten:
  "fixMatchesDepthOrDrop findNearestNonZeroPixel_spec findLowestNonZeroInRing_spec
     [dm 0 0 0] [kp 0 0] stepDepth = Inr (0, stepDepth2, [dm 0 0 0])
   \<and> fixedPixel [kp 0 0] (dm 0 0 0) = (0, 0)
   \<and> px stepDepth (0, 0) = 500
   \<and> px stepDepth2 (0, 0) = 300"
  using step_run
  by (simp add: fixedPixel_def dm_def kp_def toPoint2i_def stepDepth_def stepDepth2_def)

text \<open>
  C6, as the code has it. A match is in the output exactly when the depth at its
  fixed-side pixel is nonzero in the image right after its own repair step; that depth is
  the depth, before the step, at the pixel the ring search returned (the ring reaches ten
  pixels beyond the nearest nonzero pixel). When the fixed-side pixels of the input
  matches are pairwise different, this is the depth in the image the call leaves, so the
  output is the list of the matches whose final depth is nonzero.
\<close>

theorem fixMatchesDepthOrDrop_survivors:
  assumes run: "fixMatchesDepthOrDrop fnn flr ms fks img = Inr (r, img', out)"
  shows "out = map (nth ms)
                 (filter (\<lambda>i. px (depthAfter fnn flr fks img ms (Suc i)) (fixedPixel fks (ms ! i)) \<noteq> 0)
                    [0..<length ms])
       \<and> (\<forall>i<length ms.
             px (depthAfter fnn flr fks img ms (Suc i)) (fixedPixel fks (ms ! i))
               = px (depthAfter fnn flr fks img ms i)
                   (ringPixel fnn flr (pt (fks ! nat (trainIdx (ms ! i))))
                      (depthAfter fnn flr fks img ms i)))
       \<and> (distinct (map (fixedPixel fks) ms)
            \<longrightarrow> out = filter (\<lambda>m. px img' (fixedPixel fks m) \<noteq> 0) ms)"
proof -
  note r = fixMatches_run [OF run]
  note fl = fixLoop_run [OF r(2)]
  have out: "out = map (nth ms)
                 (filter (\<lambda>i. px (depthAfter fnn flr fks img ms (Suc i)) (fixedPixel fks (ms ! i)) \<noteq> 0)
                    [0..<length ms])"
    using fl by simp
  have img': "img' = foldl (repairStep fnn flr fks) img ms" using fl by simp
  have step: "\<forall>i<length ms.
             px (depthAfter fnn flr fks img ms (Suc i)) (fixedPixel fks (ms ! i))
               = px (depthAfter fnn flr fks img ms i)
                   (ringPixel fnn flr (pt (fks ! nat (trainIdx (ms ! i))))
                      (depthAfter fnn flr fks img ms i))"
    by (simp add: depthAfter_Suc repairStep_px)
  have fin: "out = filter (\<lambda>m. px img' (fixedPixel fks m) \<noteq> 0) ms"
    if d: "distinct (map (fixedPixel fks) ms)"
  proof -
    have "filter (\<lambda>i. px (depthAfter fnn flr fks img ms (Suc i)) (fixedPixel fks (ms ! i)) \<noteq> 0)
             [0..<length ms]
        = filter (\<lambda>i. px img' (fixedPixel fks (ms ! i)) \<noteq> 0) [0..<length ms]"
      by (rule filter_cong) (simp_all add: depthAfter_final [OF d] img')
    then show ?thesis
      using out map_nth_filter [of ms "\<lambda>m. px img' (fixedPixel fks m) \<noteq> 0"] by simp
  qed
  show ?thesis using out step fin by blast
qed

theorem fixMatchesDepthOrDrop_survivors_witness:
  "fixMatchesDepthOrDrop findNearestNonZeroPixel_spec findLowestNonZeroInRing_spec
        [dm 0 0 0, dm 1 1 0] [kp 0 0, kp 1 0] stepDepth
     = Inr (0, stepDepth3, [dm 0 0 0, dm 1 1 0])
   \<and> distinct (map (fixedPixel [kp 0 0, kp 1 0]) [dm 0 0 0, dm 1 1 0])
   \<and> [dm 0 0 0, dm 1 1 0]
       = filter (\<lambda>m. px stepDepth3 (fixedPixel [kp 0 0, kp 1 0] m) \<noteq> 0) [dm 0 0 0, dm 1 1 0]"
proof -
  have d: "distinct (map (fixedPixel [kp 0 0, kp 1 0]) [dm 0 0 0, dm 1 1 0])"
    by (simp add: fixedPixel_def dm_def kp_def toPoint2i_def)
  from fixMatchesDepthOrDrop_survivors [OF two_run] d
  have "[dm 0 0 0, dm 1 1 0]
       = filter (\<lambda>m. px stepDepth3 (fixedPixel [kp 0 0, kp 1 0] m) \<noteq> 0) [dm 0 0 0, dm 1 1 0]"
    by blast
  then show ?thesis using two_run d by blast
qed

text \<open>
  C6 as stated fails when two matches share a fixed-side pixel. The first match, at
  column 0, finds no depth within 100 pixels and is dropped. The second, at column 50,
  takes the depth 300 that the ring search finds at column 155, 105 pixels away. The
  third, at column 0 again, now finds the depth written at column 50 and survives: the
  dropped match's pixel ends with depth 300.
\<close>

theorem dropped_match_final_depth_nonzero:
  "fixMatchesDepthOrDrop findNearestNonZeroPixel_spec findLowestNonZeroInRing_spec
        [dm 0 0 0, dm 1 1 0, dm 2 0 0] [kp 0 0, kp 50 0] farDepth
     = Inr (0, farDepth3, [dm 1 1 0, dm 2 0 0])
   \<and> dm 0 0 0 \<notin> set [dm 1 1 0, dm 2 0 0]
   \<and> fixedPixel [kp 0 0, kp 50 0] (dm 0 0 0) = (0, 0)
   \<and> px farDepth3 (0, 0) = 300
   \<and> fixedPixel [kp 0 0, kp 50 0] (dm 1 1 0) = (50, 0)
   \<and> px farDepth (50, 0) = 0
   \<and> px farDepth3 (50, 0) = 300
   \<and> filter (\<lambda>q. px farDepth q = 300) (pixelsOf farDepth) = [(155, 0)]
   \<and> pixDist 50 0 (155, 0) = 105"
proof -
  have a: "filter (\<lambda>q. px farDepth q = 300) (pixelsOf farDepth) = [(155, 0)]"
    by (simp add: pix_eval farDepth_def)
  have b: "pixDist 50 0 (155, 0) = 105"
    by (simp add: pixDist_def hypot_0_right)
  show ?thesis
    using far_run a b
    by (simp add: fixedPixel_def dm_def kp_def toPoint2i_def farDepth_def farDepth3_def)
qed

section \<open>Properties of \<^verbatim>\<open>update\<close>\<close>

lemma cull_fields [simp]:
  "params (cullMemory ex img est) = params est"
  "didComputeEstimate (cullMemory ex img est) = didComputeEstimate est"
  "lastPoseEstimate (cullMemory ex img est) = lastPoseEstimate est"
  "lastEstimateMatchesNumber (cullMemory ex img est) = lastEstimateMatchesNumber est"
  "lastEstimateReprojectionError (cullMemory ex img est) = lastEstimateReprojectionError est"
  "fixed_sensor_name (cullMemory ex img est) = fixed_sensor_name est"
  "transformFixedCameraToWorld (cullMemory ex img est) = transformFixedCameraToWorld est"
  by (simp_all add: cullMemory_def)

lemma cull_derived [simp]:
  "runSolver ex acam pts ips (cullMemory ex img est) = runSolver ex acam pts ips est"
  "toWorld ex (cullMemory ex img est) t p = toWorld ex est t p"
  "requiredMatches (cullMemory ex img est) = requiredMatches est"
  by (simp_all add: runSolver_def initialGuess_def toWorld_def requiredMatches_def)

lemma matchStage_code:
  assumes "matchStage ex p aks ads fks fds fcam img0 = Inr res"
  shows "\<exists>gm pts ips img. res = Inr (0, gm, pts, ips, img)"
  using assms
  by (auto simp: matchStage_def findOrbMatches_def filterMatches_def fixMatchesDepthOrDrop_def
      get3dPositionsAndImagePositions_def bindE_def split: sum.splits prod.splits if_splits)

lemma poseStage_code:
  assumes ret: "poseStage ex aks ads acam t r gm pts ips img est = Inr (rc, est', img')"
      and r0: "0 \<le> r"
  shows "rc = gateOutcome ex est acam t gm pts ips"
proof -
  obtain rb rvec tvec inliers where sol: "runSolver ex acam pts ips est = (rb, rvec, tvec, inliers)"
    by (cases "runSolver ex acam pts ips est") auto
  show ?thesis
  proof (cases "reprojectionErrorLoop ips (projectPoints ex pts rvec tvec acam) (length inliers) inliers 0")
    case (Inl e)
    with ret sol r0 show ?thesis
      by (auto simp: poseStage_def gateOutcome_def requiredMatches_def Let_def bindE_def
          split: if_splits)
  next
    case (Inr e)
    with ret sol r0 show ?thesis
      by (auto simp: poseStage_def gateOutcome_def requiredMatches_def Let_def bindE_def
          reprojectionErrorOf_def split: if_splits sum.splits)
  qed
qed

lemma poseStage_frame:
  assumes ret: "poseStage ex aks ads acam t r gm pts ips img est = Inr (rc, est', img')"
      and nz: "rc \<noteq> 0"
  shows "est' = est"
proof -
  obtain rb rvec tvec inliers where sol: "runSolver ex acam pts ips est = (rb, rvec, tvec, inliers)"
    by (cases "runSolver ex acam pts ips est") auto
  from ret nz sol show ?thesis
    by (simp add: poseStage_def Let_def bindE_def split: if_splits sum.splits)
qed

lemma update_poseStage:
  assumes ret: "update ex aks ads fks fds acam fcam img0 t est = Inr (rc, est', img')"
  shows "\<exists>gm pts ips img.
           matchStage ex (params est) aks ads fks fds fcam img0 = Inr (Inr (0, gm, pts, ips, img))
         \<and> poseStage ex aks ads acam t 0 gm pts ips img (cullMemory ex img0 est) = Inr (rc, est', img')"
proof -
  from ret obtain res where ms: "matchStage ex (params est) aks ads fks fds fcam img0 = Inr res"
    by (auto simp: update_def bindE_def Let_def split: sum.splits)
  from matchStage_code [OF ms] obtain gm pts ips img where res: "res = Inr (0, gm, pts, ips, img)"
    by blast
  show ?thesis
    using ret ms res by (auto simp: update_def bindE_def Let_def)
qed

lemma saveLoop_step:
  assumes "validInlier pts gms kps ds i"
  shows "saveLoop ex pts camPose gms kps ds img (i # inls) mem
       = saveLoop ex pts camPose gms kps ds img inls
           (saveFeature ex (savedFeature pts camPose gms kps ds img i) mem)"
  using assms
  by (simp add: validInlier_def savedFeature_def bindE_def withStore_def at_vec_def row_mat_def)

lemma saveLoop_invalid:
  assumes "\<not> validInlier pts gms kps ds i"
  shows "\<exists>e. saveLoop ex pts camPose gms kps ds img (i # inls) mem = Inl (e, mem)"
  using assms
  by (auto simp: validInlier_def bindE_def withStore_def at_vec_def row_mat_def)

lemma saveLoop_ok:
  assumes "saveLoop ex pts camPose gms kps ds img inls mem = Inr mem'"
  shows "list_all (validInlier pts gms kps ds) inls
       \<and> mem' = saveAll ex pts camPose gms kps ds img mem inls"
  using assms
proof (induction inls arbitrary: mem)
  case Nil
  then show ?case by (simp add: saveAll_def)
next
  case (Cons i inls)
  have v: "validInlier pts gms kps ds i"
  proof (rule ccontr)
    assume "\<not> validInlier pts gms kps ds i"
    from saveLoop_invalid [OF this, of ex camPose img inls mem] Cons.prems show False by auto
  qed
  from Cons.prems have "saveLoop ex pts camPose gms kps ds img inls
           (saveFeature ex (savedFeature pts camPose gms kps ds img i) mem) = Inr mem'"
    by (simp only: saveLoop_step [OF v])
  from Cons.IH [OF this] v show ?case by (simp add: saveAll_def)
qed

lemma saveLoop_raise:
  assumes pre: "list_all (validInlier pts gms kps ds) pre"
      and i: "0 \<le> i" "nat i < length pts" "nat i < length gms"
      and bad: "\<not> (0 \<le> trainIdx (gms ! nat i) \<and> nat (trainIdx (gms ! nat i)) < length kps)"
  shows "saveLoop ex pts camPose gms kps ds img (pre @ i # post) mem
       = Inl (OutOfRange, saveAll ex pts camPose gms kps ds img mem pre)"
  using pre
proof (induction pre arbitrary: mem)
  case Nil
  show ?case using i bad
    by (auto simp: saveAll_def bindE_def withStore_def at_vec_def)
next
  case (Cons j pre)
  then have v: "validInlier pts gms kps ds j" and rest: "list_all (validInlier pts gms kps ds) pre"
    by simp_all
  have "saveLoop ex pts camPose gms kps ds img ((j # pre) @ i # post) mem
      = saveLoop ex pts camPose gms kps ds img (pre @ i # post)
          (saveFeature ex (savedFeature pts camPose gms kps ds img j) mem)"
    by (simp only: append_Cons saveLoop_step [OF v])
  also have "\<dots> = Inl (OutOfRange, saveAll ex pts camPose gms kps ds img
                          (saveFeature ex (savedFeature pts camPose gms kps ds img j) mem) pre)"
    by (rule Cons.IH [OF rest])
  also have "saveAll ex pts camPose gms kps ds img
               (saveFeature ex (savedFeature pts camPose gms kps ds img j) mem) pre
           = saveAll ex pts camPose gms kps ds img mem (j # pre)"
    by (simp add: saveAll_def)
  finally show ?case .
qed

lemma poseStage_accept:
  assumes ret: "poseStage ex aks ads acam t r gm pts ips img est = Inr (0, est', img')"
      and sol: "runSolver ex acam pts ips est = (rb, rvec, tvec, inliers)"
  shows "est' = est
           \<lparr>featuresMemory := featuresMemory est',
            lastPoseEstimate := toWorld ex est t (cameraPoseOf ex rvec tvec),
            lastEstimateMatchesNumber := int (length gm),
            lastEstimateReprojectionError := reprojectionErrorOf ex acam pts ips rvec tvec inliers,
            didComputeEstimate := True\<rparr>
       \<and> (if enableFeaturesMemory (params est)
          then saveInliersToMemory ex inliers pts (cameraPoseOf ex rvec tvec) gm aks ads img
                 (featuresMemory est) = Inr (featuresMemory est')
          else featuresMemory est' = featuresMemory est)"
  using ret sol
  by (auto simp: poseStage_def Let_def bindE_def reprojectionErrorOf_def
      split: if_splits sum.splits prod.splits)

text \<open>
  The validation stage is total when the inliers are in range: \<^verbatim>\<open>update\<close> returns
  the code of the first gate that fails, with the estimator as culled, and when no gate
  fails it ends as \<open>acceptEstimate\<close> does. Gates 1 and 2 come before any read at an
  inlier and return whatever the inliers are.
\<close>

lemma loops_in_range:
  assumes "inliersInRange pts ips reproj inliers"
  shows "\<exists>e. reprojectionErrorLoop ips reproj n inliers acc = Inr e"
    and "markersLoop pts inliers = Inr ()"
proof -
  show "\<exists>e. reprojectionErrorLoop ips reproj n inliers acc = Inr e"
    using assms
  proof (induction inliers arbitrary: acc)
    case Nil
    then show ?case by simp
  next
    case (Cons i inls)
    then have "inliersInRange pts ips reproj inls"
      and i: "0 \<le> i" "nat i < length ips" "nat i < length reproj"
      by (simp_all add: inliersInRange_def)
    from Cons.IH [OF this(1)] i show ?case by (simp add: bindE_def at_vec_def)
  qed
  show "markersLoop pts inliers = Inr ()"
    using assms
  proof (induction inliers)
    case Nil
    then show ?case by simp
  next
    case (Cons i inls)
    then have "inliersInRange pts ips reproj inls" and i: "0 \<le> i" "nat i < length pts"
      by (simp_all add: inliersInRange_def)
    from Cons.IH [OF this(1)] i show ?case by (simp add: bindE_def at_vec_def)
  qed
qed

lemma poseStage_few:
  assumes sol: "runSolver ex acam pts ips est = (rb, rvec, tvec, inliers)"
  shows "length gm < requiredMatches est
           \<Longrightarrow> poseStage ex aks ads acam t r gm pts ips img est = Inr (1, est, img)"
    and "requiredMatches est \<le> length gm \<Longrightarrow> length inliers < requiredMatches est
           \<Longrightarrow> poseStage ex aks ads acam t r gm pts ips img est = Inr (2, est, img)"
  using sol by (auto simp: poseStage_def requiredMatches_def Let_def)

lemma poseStage_total:
  assumes sol: "runSolver ex acam pts ips est = (rb, rvec, tvec, inliers)"
      and rng: "inliersInRange pts ips (projectPoints ex pts rvec tvec acam) inliers"
  shows "poseStage ex aks ads acam t 0 gm pts ips img est =
           (if gateOutcome ex est acam t gm pts ips \<noteq> 0
            then Inr (gateOutcome ex est acam t gm pts ips, est, img)
            else acceptEstimate ex aks ads t gm pts img est rvec tvec
                   (reprojectionErrorOf ex acam pts ips rvec tvec inliers) inliers)"
proof -
  from loops_in_range(1) [OF rng] obtain e where
    e: "reprojectionErrorLoop ips (projectPoints ex pts rvec tvec acam) (length inliers) inliers 0
          = Inr e"
    by blast
  note m = loops_in_range(2) [OF rng]
  have rq: "length xs < 4 \<or> length xs < unat (minimumMatchesNumber (params est))
              \<longleftrightarrow> length xs < requiredMatches est" for xs :: "'b list"
    by (auto simp: requiredMatches_def)
  show ?thesis
    by (simp add: poseStage_def gateOutcome_def acceptEstimate_def reprojectionErrorOf_def
        sol e m Let_def bindE_def rq
        del: reprojectionErrorLoop.simps markersLoop.simps)
qed

lemma gateOutcome_cull:
  "gateOutcome ex (cullMemory ex img0 est) acam t gm pts ips = gateOutcome ex est acam t gm pts ips"
  by (cases "runSolver ex acam pts ips est") (simp add: gateOutcome_def cong: if_cong)

lemma update_reach:
  assumes reach: "matchStage ex (params est) aks ads fks fds fcam img0 = Inr (Inr (r, gm, pts, ips, img))"
  shows "update ex aks ads fks fds acam fcam img0 t est
       = poseStage ex aks ads acam t 0 gm pts ips img (cullMemory ex img0 est)"
  using matchStage_code [OF reach] reach by (simp add: update_def bindE_def Let_def)

lemma update_few:
  assumes reach: "matchStage ex (params est) aks ads fks fds fcam img0 = Inr (Inr (r, gm, pts, ips, img))"
      and sol: "runSolver ex acam pts ips est = (rb, rvec, tvec, inliers)"
  shows "length gm < requiredMatches est
           \<Longrightarrow> update ex aks ads fks fds acam fcam img0 t est = Inr (1, cullMemory ex img0 est, img)"
    and "requiredMatches est \<le> length gm \<Longrightarrow> length inliers < requiredMatches est
           \<Longrightarrow> update ex aks ads fks fds acam fcam img0 t est = Inr (2, cullMemory ex img0 est, img)"
proof -
  have sol': "runSolver ex acam pts ips (cullMemory ex img0 est) = (rb, rvec, tvec, inliers)"
    using sol by simp
  show "length gm < requiredMatches est
           \<Longrightarrow> update ex aks ads fks fds acam fcam img0 t est = Inr (1, cullMemory ex img0 est, img)"
    using poseStage_few(1) [OF sol'] by (simp add: update_reach [OF reach])
  show "requiredMatches est \<le> length gm \<Longrightarrow> length inliers < requiredMatches est
           \<Longrightarrow> update ex aks ads fks fds acam fcam img0 t est = Inr (2, cullMemory ex img0 est, img)"
    using poseStage_few(2) [OF sol'] by (simp add: update_reach [OF reach])
qed

lemma update_total:
  assumes reach: "matchStage ex (params est) aks ads fks fds fcam img0 = Inr (Inr (r, gm, pts, ips, img))"
      and sol: "runSolver ex acam pts ips est = (rb, rvec, tvec, inliers)"
      and rng: "inliersInRange pts ips (projectPoints ex pts rvec tvec acam) inliers"
  shows "update ex aks ads fks fds acam fcam img0 t est =
           (if gateOutcome ex est acam t gm pts ips \<noteq> 0
            then Inr (gateOutcome ex est acam t gm pts ips, cullMemory ex img0 est, img)
            else acceptEstimate ex aks ads t gm pts img (cullMemory ex img0 est) rvec tvec
                   (reprojectionErrorOf ex acam pts ips rvec tvec inliers) inliers)"
proof -
  have sol': "runSolver ex acam pts ips (cullMemory ex img0 est) = (rb, rvec, tvec, inliers)"
    using sol by simp
  show ?thesis
    unfolding update_reach [OF reach] poseStage_total [OF sol' rng] gateOutcome_cull ..
qed

text \<open>The run of the square in \<open>env0\<close>, stage by stage.\<close>

lemma sq_find: "findOrbMatches env0 squareDescriptors squareDescriptors = Inr (0, squareMatches)"
  by (simp add: findOrbMatches_def env0_def bfMatcher_hamming_def squareDescriptors_def bindE_def
      hammingDistance_def popCount_def upt_rec dm_def squareMatches_def)

lemma sq_filter:
  assumes "matchingThreshold p = 25" and "keypointMinDistThreshold p = 5"
  shows "filterMatches p squareMatches [] squareKeypoints squareKeypoints = Inr (0, squareMatches)"
  by (simp add: assms filterMatches_def mergeLoop.simps squareKeypoints_def bindE_def filterStep_def
      at_vec_def dm_def kp_def withinDist_eval upt_Cons squareMatches_def)

lemma flat_step: "fixDepthAt fnn flr p flatDepth = flatDepth"
  by (simp add: fixDepthAt_eq flatDepth_def fun_eq_iff)

lemma sq_fix:
  "fixMatchesDepthOrDrop fnn flr squareMatches squareKeypoints flatDepth
     = Inr (0, flatDepth, squareMatches)"
proof -
  have v: "px flatDepth q = 1000" for q by (simp add: flatDepth_def)
  show ?thesis
    by (simp add: fixMatchesDepthOrDrop_def bindE_def at_vec_def squareMatches_def
        squareKeypoints_def dm_def kp_def Let_def flat_step v)
qed

lemma sq_positions:
  "get3dPositionsAndImagePositions env0 squareMatches squareKeypoints squareKeypoints flatDepth
     unitCamera = Inr (0, squarePoints3d, squarePoints2d)"
proof -
  have v: "px flatDepth q = 1000" for q by (simp add: flatDepth_def)
  show ?thesis
    by (simp add: get3dPositionsAndImagePositions_def bindE_def at_vec_def squareMatches_def
        squareKeypoints_def dm_def kp_def Let_def v env0_def get3dPoint_spec_def unitCamera_def
        squarePoints3d_def squarePoints2d_def)
qed

lemma sq_matchStage:
  assumes "matchingThreshold p = 25" and "keypointMinDistThreshold p = 5"
  shows "matchStage env0 p squareKeypoints squareDescriptors squareKeypoints squareDescriptors
           unitCamera flatDepth
         = Inr (Inr (0, squareMatches, squarePoints3d, squarePoints2d, flatDepth))"
  by (simp add: matchStage_def bindE_def sq_find sq_filter [OF assms] sq_fix sq_positions)

lemma sq_solver:
  "runSolver env0 unitCamera squarePoints3d squarePoints2d est = (True, (0, 0, 0), (0, 0, 0), [0, 1, 2, 3])"
  by (simp add: runSolver_def env0_def identitySolver_def squarePoints3d_def upt_rec
      split: prod.splits)

lemma sq_reproj:
  "reprojectionErrorLoop squarePoints2d
     (projectPoints env0 squarePoints3d (0, 0, 0) (0, 0, 0) unitCamera) n [0, 1, 2, 3] 0 = Inr 0"
  by (simp add: env0_def projectIdentity_def squarePoints3d_def squarePoints2d_def unitCamera_def
      bindE_def at_vec_def hypot_def)

lemma sq_markers: "markersLoop squarePoints3d [0, 1, 2, 3] = Inr ()"
  by (simp add: squarePoints3d_def bindE_def at_vec_def)

lemma sq_cameraPose: "cameraPoseOf env0 (0, 0, 0) (0, 0, 0) = cameraPose0"
  by (simp add: cameraPoseOf_def env0_def invertPose_rigid_def quatConj_def quatRotate_def
      vecNeg_def identityQuaternion_def cameraPose0_def rotationVectorToQuaternion_def Let_def)

lemma sq_toWorld:
  assumes "transformFixedCameraToWorld est = transformFixedCameraToWorld est0"
  shows "toWorld env0 est t cameraPose0 = worldPose0 t"
  by (simp add: assms toWorld_def env0_def doTransform_rigid_def poseToPoseStamped_def est0_def
      cameraPose0_def worldPose0_def quatRotate_def quatMul_def vecAdd_def identityQuaternion_def
      Let_def)

lemma sq_angle: "computeAngleFromZAxis cameraPose0 = 0"
  by (simp add: computeAngleFromZAxis_def cameraPose0_def identityQuaternion_def quatRotate_def
      vecAngle_def dot3_def Let_def)

lemma cull_env0: "cullMemory env0 img est = est"
  by (simp add: cullMemory_def env0_def)

lemma low_run:
  "update env0 squareKeypoints squareDescriptors squareKeypoints squareDescriptors unitCamera
     unitCamera flatDepth t lowCeiling = Inr (4, lowCeiling, flatDepth)"
proof -
  have p: "matchingThreshold (params lowCeiling) = 25"
    "keypointMinDistThreshold (params lowCeiling) = 5"
    by (simp_all add: lowCeiling_def est0_def params0_def)
  have tw: "transformFixedCameraToWorld lowCeiling = transformFixedCameraToWorld est0"
    by (simp add: lowCeiling_def)
  have q: "minimumMatchesNumber (params lowCeiling) = 4"
    "reprojectionErrorDiscardThreshold (params lowCeiling) = 5"
    "maxPoseHeight (params lowCeiling) = 2"
    "enableFeaturesMemory (params lowCeiling)"
    by (simp_all add: lowCeiling_def est0_def params0_def)
  have len: "length squareMatches = 4" by (simp add: squareMatches_def)
  have h: "poseHeight (worldPose0 t) = 3" by (simp add: poseHeight_def worldPose0_def)
  show ?thesis
    by (simp add: update_def bindE_def Let_def cull_env0 sq_matchStage [OF p] poseStage_def
        sq_solver sq_reproj sq_markers sq_cameraPose sq_toWorld [OF tw] q len h
        del: reprojectionErrorLoop.simps markersLoop.simps)
qed

lemma saveLoop_valid:
  assumes "list_all (validInlier pts gms kps ds) inls"
  shows "saveLoop ex pts camPose gms kps ds img inls mem
       = Inr (saveAll ex pts camPose gms kps ds img mem inls)"
  using assms
proof (induction inls arbitrary: mem)
  case Nil
  then show ?case by (simp add: saveAll_def)
next
  case (Cons i inls)
  then have v: "validInlier pts gms kps ds i" and rest: "list_all (validInlier pts gms kps ds) inls"
    by simp_all
  show ?case
    unfolding saveLoop_step [OF v] Cons.IH [OF rest] by (simp add: saveAll_def)
qed

lemma sq_valid:
  "list_all (validInlier squarePoints3d squareMatches squareKeypoints squareDescriptors) [0, 1, 2, 3]"
  by (simp add: validInlier_def squarePoints3d_def squareMatches_def squareKeypoints_def
      squareDescriptors_def dm_def)

lemma accept_run:
  "update env0 squareKeypoints squareDescriptors squareKeypoints squareDescriptors unitCamera
     unitCamera flatDepth t est0 = Inr (0, acceptedEstimator t, flatDepth)"
proof -
  have p: "matchingThreshold (params est0) = 25"
    "keypointMinDistThreshold (params est0) = 5"
    by (simp_all add: est0_def params0_def)
  have q: "minimumMatchesNumber (params est0) = 4"
    "reprojectionErrorDiscardThreshold (params est0) = 5"
    "maxPoseHeight (params est0) = 5"
    "minPoseHeight (params est0) = 0"
    "phoneOrientationDifferenceThreshold_deg (params est0) = 45"
    "enableFeaturesMemory (params est0)"
    "featuresMemory est0 = []"
    by (simp_all add: est0_def params0_def)
  have len: "length squareMatches = 4" by (simp add: squareMatches_def)
  have h: "poseHeight (worldPose0 t) = 3" by (simp add: poseHeight_def worldPose0_def)
  have sv: "saveInliersToMemory env0 [0, 1, 2, 3] squarePoints3d cameraPose0 squareMatches
              squareKeypoints squareDescriptors flatDepth []
            = Inr (saveAll env0 squarePoints3d cameraPose0 squareMatches squareKeypoints
                     squareDescriptors flatDepth [] [0, 1, 2, 3])"
    unfolding saveInliersToMemory_def by (rule saveLoop_valid [OF sq_valid])
  show ?thesis
    by (simp add: update_def bindE_def Let_def cull_env0 sq_matchStage [OF p] poseStage_def
        sq_solver sq_reproj sq_markers sq_cameraPose sq_toWorld sq_angle q len h sv
        acceptedEstimator_def
        del: reprojectionErrorLoop.simps markersLoop.simps)
qed

lemma tri_matchStage:
  assumes "matchingThreshold p = 25" and "keypointMinDistThreshold p = 5"
  shows "matchStage env0 p triangleKeypoints triangleDescriptors squareKeypoints
           squareDescriptors unitCamera flatDepth
         = Inr (Inr (0, triangleMatches, trianglePoints3d, trianglePoints2d, flatDepth))"
proof -
  have f: "findOrbMatches env0 triangleDescriptors squareDescriptors = Inr (0, triangleMatches)"
    by (simp add: findOrbMatches_def env0_def bfMatcher_hamming_def squareDescriptors_def bindE_def
        triangleDescriptors_def hammingDistance_def popCount_def upt_rec dm_def triangleMatches_def)
  have g: "filterMatches p triangleMatches [] triangleKeypoints squareKeypoints
             = Inr (0, triangleMatches)"
    by (simp add: assms filterMatches_def mergeLoop.simps squareKeypoints_def bindE_def
        filterStep_def triangleKeypoints_def at_vec_def dm_def kp_def withinDist_eval upt_Cons
        triangleMatches_def)
  have v: "px flatDepth q = 1000" for q by (simp add: flatDepth_def)
  have h: "fixMatchesDepthOrDrop fnn flr triangleMatches squareKeypoints flatDepth
             = Inr (0, flatDepth, triangleMatches)" for fnn flr
    by (simp add: fixMatchesDepthOrDrop_def bindE_def at_vec_def triangleMatches_def
        squareKeypoints_def dm_def kp_def Let_def flat_step v)
  have k: "get3dPositionsAndImagePositions env0 triangleMatches squareKeypoints
             triangleKeypoints flatDepth unitCamera
           = Inr (0, trianglePoints3d, trianglePoints2d)"
    by (simp add: get3dPositionsAndImagePositions_def bindE_def at_vec_def triangleMatches_def
        squareKeypoints_def triangleKeypoints_def dm_def kp_def Let_def v env0_def
        get3dPoint_spec_def unitCamera_def trianglePoints3d_def trianglePoints2d_def)
  show ?thesis
    by (simp add: matchStage_def bindE_def f g h k)
qed

lemma tri_run:
  "update env0 triangleKeypoints triangleDescriptors squareKeypoints squareDescriptors unitCamera
     unitCamera flatDepth t est0 = Inr (1, est0, flatDepth)"
proof -
  have p: "matchingThreshold (params est0) = 25"
    "keypointMinDistThreshold (params est0) = 5"
    by (simp_all add: est0_def params0_def)
  have len: "length triangleMatches = 3" by (simp add: triangleMatches_def)
  show ?thesis
    by (simp add: update_def bindE_def Let_def cull_env0 tri_matchStage [OF p] poseStage_def len)
qed

lemma update_code:
  assumes reach: "matchStage ex (params est) aks ads fks fds fcam img0 = Inr (Inr (r, gm, pts, ips, img))"
      and ret: "update ex aks ads fks fds acam fcam img0 t est = Inr (rc, est', img')"
  shows "r = 0"
    and "poseStage ex aks ads acam t 0 gm pts ips img (cullMemory ex img0 est) = Inr (rc, est', img')"
    and "rc = gateOutcome ex est acam t gm pts ips"
proof -
  from update_poseStage [OF ret] reach
  show r: "r = 0"
    and ps: "poseStage ex aks ads acam t 0 gm pts ips img (cullMemory ex img0 est) = Inr (rc, est', img')"
    by auto
  from poseStage_code [OF ps] show "rc = gateOutcome ex est acam t gm pts ips"
    by (simp add: gateOutcome_cull)
qed

lemma gateOutcome_range: "gateOutcome ex est acam t gm pts ips \<in> {- 5, 0, 1, 2, 3, 4, 5, 6}"
  by (simp add: gateOutcome_def split: prod.splits)

lemma update_range:
  assumes ret: "update ex aks ads fks fds acam fcam img0 t est = Inr (rc, est', img')"
  shows "rc \<in> {- 5, 0, 1, 2, 3, 4, 5, 6}"
proof -
  from update_poseStage [OF ret] obtain gm pts ips img where
    "poseStage ex aks ads acam t 0 gm pts ips img (cullMemory ex img0 est) = Inr (rc, est', img')"
    by blast
  from poseStage_code [OF this] show ?thesis
    using gateOutcome_range [of ex "cullMemory ex img0 est" acam t gm pts ips] by simp
qed

text \<open>
  The run of the square against the fixed side of \<open>shiftedKeypoints\<close>: every match
  has a train index one above its query index.
\<close>

lemma shift_matchStage:
  assumes "matchingThreshold p = 25" and "keypointMinDistThreshold p = 5"
  shows "matchStage env0 p squareKeypoints squareDescriptors shiftedKeypoints
           shiftedDescriptors unitCamera flatDepth
         = Inr (Inr (0, shiftedMatches, squarePoints3d, squarePoints2d, flatDepth))"
proof -
  have f: "findOrbMatches env0 squareDescriptors shiftedDescriptors = Inr (0, shiftedMatches)"
    by (simp add: findOrbMatches_def env0_def bfMatcher_hamming_def squareDescriptors_def bindE_def
        shiftedDescriptors_def hammingDistance_def popCount_def upt_rec dm_def shiftedMatches_def)
  have g: "filterMatches p shiftedMatches [] squareKeypoints shiftedKeypoints
             = Inr (0, shiftedMatches)"
    by (simp add: assms filterMatches_def mergeLoop.simps squareKeypoints_def bindE_def
        filterStep_def shiftedKeypoints_def at_vec_def dm_def kp_def withinDist_eval upt_Cons
        shiftedMatches_def)
  have v: "px flatDepth q = 1000" for q by (simp add: flatDepth_def)
  have h: "fixMatchesDepthOrDrop fnn flr shiftedMatches shiftedKeypoints flatDepth
             = Inr (0, flatDepth, shiftedMatches)" for fnn flr
    by (simp add: fixMatchesDepthOrDrop_def bindE_def at_vec_def shiftedMatches_def
        shiftedKeypoints_def dm_def kp_def Let_def flat_step v)
  have k: "get3dPositionsAndImagePositions env0 shiftedMatches shiftedKeypoints
             squareKeypoints flatDepth unitCamera
           = Inr (0, squarePoints3d, squarePoints2d)"
    by (simp add: get3dPositionsAndImagePositions_def bindE_def at_vec_def shiftedMatches_def
        squareKeypoints_def shiftedKeypoints_def dm_def kp_def Let_def v env0_def
        get3dPoint_spec_def unitCamera_def squarePoints3d_def squarePoints2d_def)
  show ?thesis
    by (simp add: matchStage_def bindE_def f g h k)
qed

lemma sq_rng:
  "inliersInRange squarePoints3d squarePoints2d
     (projectPoints env0 squarePoints3d rvec tvec unitCamera) [0, 1, 2, 3]"
  by (simp add: inliersInRange_def env0_def projectIdentity_def squarePoints3d_def
      squarePoints2d_def)

lemma sq_outcome:
  assumes q: "minimumMatchesNumber (params est) = 4"
      "reprojectionErrorDiscardThreshold (params est) = 5"
      "maxPoseHeight (params est) = 5"
      "minPoseHeight (params est) = 0"
      "phoneOrientationDifferenceThreshold_deg (params est) = 45"
    and h: "0 \<le> poseHeight (toWorld env0 est t cameraPose0)"
      "poseHeight (toWorld env0 est t cameraPose0) \<le> 5"
    and len: "length gm = 4"
  shows "gateOutcome env0 est unitCamera t gm squarePoints3d squarePoints2d = 0"
    and "reprojectionErrorOf env0 unitCamera squarePoints3d squarePoints2d (0, 0, 0) (0, 0, 0)
           [0, 1, 2, 3] = 0"
  using h
  by (simp_all add: gateOutcome_def sq_solver requiredMatches_def q len reprojectionErrorOf_def
      sq_reproj sq_cameraPose sq_angle del: reprojectionErrorLoop.simps)

text \<open>
  C1. The claim fails on the code for a frame that passes every gate. With the feature
  memory enabled, \<^verbatim>\<open>update\<close> hands the mobile-side containers to
  \<^verbatim>\<open>saveInliersToMemory\<close>, which reads them at the train index of every inlier's
  match. On the square matched against \<open>shiftedKeypoints\<close> the validation stage is
  reached and no gate fails; the match of the fourth inlier has the train index 4, the
  mobile side has four keypoints, and the call raises \<open>OutOfRange\<close> instead of
  returning 0. The same frame without the feature memory returns 0.
\<close>

theorem accepted_frame_raises:
  "matchStage env0 (params est0) squareKeypoints squareDescriptors shiftedKeypoints
     shiftedDescriptors unitCamera flatDepth
     = Inr (Inr (0, shiftedMatches, squarePoints3d, squarePoints2d, flatDepth))
   \<and> gateOutcome env0 est0 unitCamera 7 shiftedMatches squarePoints3d squarePoints2d = 0
   \<and> enableFeaturesMemory (params est0)
   \<and> update env0 squareKeypoints squareDescriptors shiftedKeypoints shiftedDescriptors
       unitCamera unitCamera flatDepth 7 est0 = Inl OutOfRange
   \<and> update env0 squareKeypoints squareDescriptors shiftedKeypoints shiftedDescriptors
       unitCamera unitCamera flatDepth 7 noMemory = Inr (0, acceptedNoMemory 7, flatDepth)"
proof -
  have p: "matchingThreshold (params est0) = 25" "keypointMinDistThreshold (params est0) = 5"
    by (simp_all add: est0_def params0_def)
  have pn: "matchingThreshold (params noMemory) = 25"
    "keypointMinDistThreshold (params noMemory) = 5"
    by (simp_all add: noMemory_def est0_def params0_def)
  have en: "enableFeaturesMemory (params est0)" "\<not> enableFeaturesMemory (params noMemory)"
    "featuresMemory est0 = []"
    by (simp_all add: noMemory_def est0_def params0_def)
  have len: "length shiftedMatches = 4" by (simp add: shiftedMatches_def)
  have tw: "transformFixedCameraToWorld noMemory = transformFixedCameraToWorld est0"
    by (simp add: noMemory_def)
  have hw: "poseHeight (worldPose0 7) = 3" by (simp add: poseHeight_def worldPose0_def)
  have q: "minimumMatchesNumber (params est0) = 4"
    "reprojectionErrorDiscardThreshold (params est0) = 5"
    "maxPoseHeight (params est0) = 5"
    "minPoseHeight (params est0) = 0"
    "phoneOrientationDifferenceThreshold_deg (params est0) = 45"
    by (simp_all add: est0_def params0_def)
  have qn: "minimumMatchesNumber (params noMemory) = 4"
    "reprojectionErrorDiscardThreshold (params noMemory) = 5"
    "maxPoseHeight (params noMemory) = 5"
    "minPoseHeight (params noMemory) = 0"
    "phoneOrientationDifferenceThreshold_deg (params noMemory) = 45"
    by (simp_all add: noMemory_def est0_def params0_def)
  have g: "gateOutcome env0 est0 unitCamera 7 shiftedMatches squarePoints3d squarePoints2d = 0"
    by (rule sq_outcome(1) [OF q]) (simp_all add: sq_toWorld hw len)
  have gn: "gateOutcome env0 noMemory unitCamera 7 shiftedMatches squarePoints3d squarePoints2d = 0"
    by (rule sq_outcome(1) [OF qn]) (simp_all add: sq_toWorld [OF tw] hw len)
  have e: "reprojectionErrorOf env0 unitCamera squarePoints3d squarePoints2d (0, 0, 0) (0, 0, 0)
             [0, 1, 2, 3] = 0"
    by (simp add: reprojectionErrorOf_def sq_reproj del: reprojectionErrorLoop.simps)
  have pre: "list_all (validInlier squarePoints3d shiftedMatches squareKeypoints
               squareDescriptors) [0, 1, 2]"
    by (simp add: validInlier_def squarePoints3d_def shiftedMatches_def squareKeypoints_def
        squareDescriptors_def dm_def)
  have bad: "\<not> (0 \<le> trainIdx (shiftedMatches ! nat 3)
               \<and> nat (trainIdx (shiftedMatches ! nat 3)) < length squareKeypoints)"
    by (simp add: shiftedMatches_def dm_def squareKeypoints_def)
  have i3: "0 \<le> (3 :: int)" "nat 3 < length squarePoints3d" "nat 3 < length shiftedMatches"
    by (simp_all add: squarePoints3d_def shiftedMatches_def)
  have "saveLoop env0 squarePoints3d cameraPose0 shiftedMatches squareKeypoints
          squareDescriptors flatDepth ([0, 1, 2] @ 3 # []) []
        = Inl (OutOfRange, saveAll env0 squarePoints3d cameraPose0 shiftedMatches
                 squareKeypoints squareDescriptors flatDepth [] [0, 1, 2])"
    by (rule saveLoop_raise [OF pre i3 bad])
  then have sv: "saveInliersToMemory env0 [0, 1, 2, 3] squarePoints3d cameraPose0
                   shiftedMatches squareKeypoints squareDescriptors flatDepth []
        = Inl (OutOfRange, saveAll env0 squarePoints3d cameraPose0 shiftedMatches
                 squareKeypoints squareDescriptors flatDepth [] [0, 1, 2])"
    by (simp add: saveInliersToMemory_def)
  have u: "update env0 squareKeypoints squareDescriptors shiftedKeypoints shiftedDescriptors
             unitCamera unitCamera flatDepth 7 est0 = Inl OutOfRange"
    unfolding update_total [OF shift_matchStage [OF p] sq_solver sq_rng]
    by (simp add: g acceptEstimate_def cull_env0 en sq_cameraPose sv bindE_def)
  have un: "update env0 squareKeypoints squareDescriptors shiftedKeypoints shiftedDescriptors
              unitCamera unitCamera flatDepth 7 noMemory = Inr (0, acceptedNoMemory 7, flatDepth)"
    unfolding update_total [OF shift_matchStage [OF pn] sq_solver sq_rng]
    by (simp add: gn acceptEstimate_def cull_env0 en sq_cameraPose bindE_def e len
        sq_toWorld [OF tw] acceptedNoMemory_def)
  show ?thesis using shift_matchStage [OF p] g en u un by simp
qed

text \<open>
  C3. A call of \<^verbatim>\<open>update\<close> that returns a nonzero outcome leaves
  \<open>lastPoseEstimate\<close>, \<open>lastEstimateMatchesNumber\<close>,
  \<open>lastEstimateReprojectionError\<close> and \<open>didComputeEstimate\<close> as they were; a call that
  returns 0 has assigned them (the estimate is stamped with the call's time in the world
  frame and \<open>didComputeEstimate\<close> is set).
\<close>

theorem update_rejection_keeps_estimate:
  assumes ret: "update ex aks ads fks fds acam fcam img0 t est = Inr (rc, est', img')"
  shows "(rc \<noteq> 0 \<longrightarrow>
            lastPoseEstimate est' = lastPoseEstimate est
          \<and> lastEstimateMatchesNumber est' = lastEstimateMatchesNumber est
          \<and> lastEstimateReprojectionError est' = lastEstimateReprojectionError est
          \<and> didComputeEstimate est' = didComputeEstimate est)
       \<and> (rc = 0 \<longrightarrow>
            didComputeEstimate est'
          \<and> frame_id (lastPoseEstimate est') = ''/world''
          \<and> stamp (lastPoseEstimate est') = t)"
proof -
  from update_poseStage [OF ret] obtain gm pts ips img where
    ps: "poseStage ex aks ads acam t 0 gm pts ips img (cullMemory ex img0 est) = Inr (rc, est', img')"
    by blast
  have a: "est' = cullMemory ex img0 est" if "rc \<noteq> 0"
    using poseStage_frame [OF ps that] .
  obtain rb rvec tvec inliers where
    sol: "runSolver ex acam pts ips (cullMemory ex img0 est) = (rb, rvec, tvec, inliers)"
    by (cases "runSolver ex acam pts ips (cullMemory ex img0 est)") auto
  have b: "didComputeEstimate est' \<and> frame_id (lastPoseEstimate est') = ''/world''
          \<and> stamp (lastPoseEstimate est') = t" if z: "rc = 0"
  proof -
    from ps z have ps0: "poseStage ex aks ads acam t 0 gm pts ips img (cullMemory ex img0 est)
        = Inr (0, est', img')" by simp
    from poseStage_accept [OF ps0 sol]
    have e: "est' = (cullMemory ex img0 est)
           \<lparr>featuresMemory := featuresMemory est',
            lastPoseEstimate := toWorld ex (cullMemory ex img0 est) t (cameraPoseOf ex rvec tvec),
            lastEstimateMatchesNumber := int (length gm),
            lastEstimateReprojectionError := reprojectionErrorOf ex acam pts ips rvec tvec inliers,
            didComputeEstimate := True\<rparr>" by blast
    have "didComputeEstimate est'" by (subst e) simp
    moreover have "lastPoseEstimate est' = toWorld ex est t (cameraPoseOf ex rvec tvec)"
      by (subst e) simp
    ultimately show ?thesis by (simp add: toWorld_def)
  qed
  show ?thesis using a b by auto
qed

theorem update_rejection_keeps_estimate_witness:
  "update env0 squareKeypoints squareDescriptors squareKeypoints squareDescriptors unitCamera
       unitCamera flatDepth 7 lowCeiling = Inr (4, lowCeiling, flatDepth)
   \<and> (4 :: int) \<noteq> 0
   \<and> update env0 squareKeypoints squareDescriptors squareKeypoints squareDescriptors unitCamera
       unitCamera flatDepth 7 est0 = Inr (0, acceptedEstimator 7, flatDepth)
   \<and> didComputeEstimate (acceptedEstimator 7)
   \<and> \<not> didComputeEstimate est0
   \<and> stamp (lastPoseEstimate (acceptedEstimator 7)) = 7"
proof -
  from update_rejection_keeps_estimate [OF accept_run [of 7]]
  have "didComputeEstimate (acceptedEstimator 7)
      \<and> stamp (lastPoseEstimate (acceptedEstimator 7)) = 7" by simp
  moreover from update_rejection_keeps_estimate [OF low_run [of 7]]
  have "didComputeEstimate lowCeiling = didComputeEstimate lowCeiling" by simp
  moreover have "\<not> didComputeEstimate est0" by (simp add: est0_def)
  ultimately show ?thesis using low_run accept_run by simp
qed

section \<open>The orientation gate\<close>

lemma rotated_z_unit:
  fixes x y z w :: real
  assumes "x * x + y * y + z * z + w * w = 1"
  shows "(x * (z * 2) + w * (y * 2)) * (x * (z * 2) + w * (y * 2))
       + (y * (z * 2) - w * (x * 2)) * (y * (z * 2) - w * (x * 2))
       + (1 - (x * (x * 2) + y * (y * 2))) * (1 - (x * (x * 2) + y * (y * 2))) = 1"
  using assms by algebra

lemma computeAngleFromZAxis_unit:
  assumes u: "unitQuaternion (orientation p)"
  shows "computeAngleFromZAxis p
       = arccos (1 - 2 * (qx (orientation p) * qx (orientation p)
                          + qy (orientation p) * qy (orientation p))) * 180 / 3.14159"
proof -
  define x y z w where "x = qx (orientation p)" and "y = qy (orientation p)"
    and "z = qz (orientation p)" and "w = qw (orientation p)"
  have n: "x * x + y * y + z * z + w * w = 1"
    using u by (simp add: unitQuaternion_def x_def y_def z_def w_def)
  let ?c = "1 - (x * (x * 2) + y * (y * 2))"
  have rot: "quatRotate (orientation p) (0, 0, 1)
           = (x * (z * 2) + w * (y * 2), y * (z * 2) - w * (x * 2), ?c)"
    using n by (simp add: quatRotate_def Let_def x_def y_def z_def w_def)
  have len: "dot3 (quatRotate (orientation p) (0, 0, 1)) (quatRotate (orientation p) (0, 0, 1)) = 1"
    unfolding rot using rotated_z_unit [OF n] by (simp add: dot3_def)
  have va: "vecAngle (quatRotate (orientation p) (0, 0, 1)) (0, 0, 1) = arccos ?c"
    unfolding vecAngle_def len by (simp add: rot dot3_def)
  have s0: "0 \<le> x * x + y * y" by simp
  have "0 \<le> z * z + w * w" by simp
  with n have s1: "x * x + y * y \<le> 1" by linarith
  have "- 1 \<le> ?c" "?c \<le> 1" using s0 s1 by simp_all
  then have "0 \<le> arccos ?c" by (rule arccos_lbound)
  then show ?thesis
    by (simp add: computeAngleFromZAxis_def Let_def va x_def y_def algebra_simps)
qed

lemma sq_gate:
  "reachesOrientationGate env0 est0 unitCamera t squareMatches squarePoints3d squarePoints2d"
proof -
  have q: "minimumMatchesNumber (params est0) = 4"
    "reprojectionErrorDiscardThreshold (params est0) = 5"
    "maxPoseHeight (params est0) = 5"
    "minPoseHeight (params est0) = 0"
    by (simp_all add: est0_def params0_def)
  have h: "poseHeight (worldPose0 t) = 3" by (simp add: poseHeight_def worldPose0_def)
  have len: "length squareMatches = 4" by (simp add: squareMatches_def)
  show ?thesis
    by (simp add: reachesOrientationGate_def sq_solver requiredMatches_def q len
        reprojectionErrorOf_def sq_reproj sq_cameraPose sq_toWorld h sq_rng
        del: reprojectionErrorLoop.simps)
qed

text \<open>The run of the square with the solver that reports the facing camera.\<close>

lemma positionsLoop_solver:
  "positionsLoop (ex\<lparr>solvePnPRansac := s\<rparr>) fks aks img cam ms = positionsLoop ex fks aks img cam ms"
  by (induction ms) simp_all

lemma matchStage_solver:
  "matchStage (ex\<lparr>solvePnPRansac := s\<rparr>) p aks ads fks fds fcam img
     = matchStage ex p aks ads fks fds fcam img"
  by (simp add: matchStage_def findOrbMatches_def get3dPositionsAndImagePositions_def
      positionsLoop_solver cong: if_cong)

lemma facing_matchStage:
  assumes "matchingThreshold p = 25" and "keypointMinDistThreshold p = 5"
  shows "matchStage facingEnv p squareKeypoints squareDescriptors squareKeypoints
           squareDescriptors unitCamera flatDepth
         = Inr (Inr (0, squareMatches, squarePoints3d, squarePoints2d, flatDepth))"
  unfolding facingEnv_def matchStage_solver by (rule sq_matchStage [OF assms])

lemma facing_solver:
  "runSolver facingEnv unitCamera squarePoints3d squarePoints2d est
     = (True, (pi, 0, 0), (0, 0, 0), [0, 1, 2, 3])"
  by (simp add: runSolver_def facingEnv_def facingSolver_def squarePoints3d_def upt_rec
      split: prod.splits)

lemma facing_rng:
  "inliersInRange squarePoints3d squarePoints2d
     (projectPoints facingEnv squarePoints3d rvec tvec unitCamera) [0, 1, 2, 3]"
  by (simp add: inliersInRange_def facingEnv_def env0_def projectIdentity_def squarePoints3d_def
      squarePoints2d_def)

lemma facing_reproj:
  "reprojectionErrorLoop squarePoints2d
     (projectPoints facingEnv squarePoints3d rvec tvec unitCamera) n [0, 1, 2, 3] 0 = Inr 0"
  by (simp add: facingEnv_def env0_def projectIdentity_def squarePoints3d_def squarePoints2d_def
      unitCamera_def bindE_def at_vec_def hypot_def)

lemma facing_cameraPose: "cameraPoseOf facingEnv (pi, 0, 0) (0, 0, 0) = facingPose"
  by (simp add: cameraPoseOf_def facingEnv_def env0_def invertPose_rigid_def quatConj_def
      quatRotate_def vecNeg_def rotationVectorToQuaternion_def facingPose_def Let_def)

lemma facing_height: "poseHeight (toWorld facingEnv est0 t facingPose) = 3"
  by (simp add: toWorld_def facingEnv_def env0_def doTransform_rigid_def poseToPoseStamped_def
      est0_def facingPose_def quatRotate_def quatMul_def vecAdd_def poseHeight_def Let_def)

lemma facing_angle: "computeAngleFromZAxis facingPose = pi * 180 / 3.14159"
  by (simp add: computeAngleFromZAxis_def facingPose_def quatRotate_def vecAngle_def dot3_def
      Let_def)

lemma facing_gate:
  "reachesOrientationGate facingEnv est0 unitCamera t squareMatches squarePoints3d squarePoints2d"
proof -
  have q: "minimumMatchesNumber (params est0) = 4"
    "reprojectionErrorDiscardThreshold (params est0) = 5"
    "maxPoseHeight (params est0) = 5"
    "minPoseHeight (params est0) = 0"
    by (simp_all add: est0_def params0_def)
  have len: "length squareMatches = 4" by (simp add: squareMatches_def)
  show ?thesis
    by (simp add: reachesOrientationGate_def facing_solver requiredMatches_def q len
        reprojectionErrorOf_def facing_reproj facing_cameraPose facing_height facing_rng
        del: reprojectionErrorLoop.simps)
qed

lemma cull_facing: "cullMemory facingEnv img est = est"
  by (simp add: cullMemory_def facingEnv_def env0_def)

text \<open>The run of the square seen by the camera on the wall.\<close>

lemma wall_toWorld: "toWorld env0 wallCamera t cameraPose0 = wallPose t"
  by (simp add: toWorld_def env0_def doTransform_rigid_def poseToPoseStamped_def wallCamera_def
      est0_def cameraPose0_def wallPose_def quatRotate_def quatMul_def vecAdd_def
      identityQuaternion_def Let_def)

lemma wall_axis: "quatRotate (orientation (ps_pose (wallPose t))) (0, 0, 1) = (0, 1, 0)"
  by (simp add: wallPose_def quatRotate_def Let_def)

lemma wall_angle: "computeAngleFromZAxis (ps_pose (wallPose t)) = pi * 90 / 3.14159"
  by (simp add: computeAngleFromZAxis_def wall_axis vecAngle_def dot3_def Let_def)

lemma wall_run:
  "update env0 squareKeypoints squareDescriptors squareKeypoints squareDescriptors unitCamera
     unitCamera flatDepth t wallCamera = Inr (0, acceptedWall t, flatDepth)"
proof -
  have p: "matchingThreshold (params wallCamera) = 25"
    "keypointMinDistThreshold (params wallCamera) = 5"
    by (simp_all add: wallCamera_def est0_def params0_def)
  have en: "enableFeaturesMemory (params wallCamera)" "featuresMemory wallCamera = []"
    by (simp_all add: wallCamera_def est0_def params0_def)
  have len: "length squareMatches = 4" by (simp add: squareMatches_def)
  have hw: "poseHeight (wallPose t) = 3 / 2" by (simp add: poseHeight_def wallPose_def)
  have q: "minimumMatchesNumber (params wallCamera) = 4"
    "reprojectionErrorDiscardThreshold (params wallCamera) = 5"
    "maxPoseHeight (params wallCamera) = 5"
    "minPoseHeight (params wallCamera) = 0"
    "phoneOrientationDifferenceThreshold_deg (params wallCamera) = 45"
    by (simp_all add: wallCamera_def est0_def params0_def)
  have g: "gateOutcome env0 wallCamera unitCamera t squareMatches squarePoints3d squarePoints2d = 0"
    by (rule sq_outcome(1) [OF q]) (simp_all add: wall_toWorld hw len)
  have e: "reprojectionErrorOf env0 unitCamera squarePoints3d squarePoints2d (0, 0, 0) (0, 0, 0)
             [0, 1, 2, 3] = 0"
    by (simp add: reprojectionErrorOf_def sq_reproj del: reprojectionErrorLoop.simps)
  have sv: "saveInliersToMemory env0 [0, 1, 2, 3] squarePoints3d cameraPose0 squareMatches
              squareKeypoints squareDescriptors flatDepth []
            = Inr (saveAll env0 squarePoints3d cameraPose0 squareMatches squareKeypoints
                     squareDescriptors flatDepth [] [0, 1, 2, 3])"
    unfolding saveInliersToMemory_def by (rule saveLoop_valid [OF sq_valid])
  show ?thesis
    unfolding update_total [OF sq_matchStage [OF p] sq_solver sq_rng]
    by (simp add: g acceptEstimate_def cull_env0 en sq_cameraPose sv bindE_def e len
        wall_toWorld acceptedWall_def)
qed

lemma wall_gate:
  "reachesOrientationGate env0 wallCamera unitCamera t squareMatches squarePoints3d squarePoints2d"
proof -
  have q: "minimumMatchesNumber (params wallCamera) = 4"
    "reprojectionErrorDiscardThreshold (params wallCamera) = 5"
    "maxPoseHeight (params wallCamera) = 5"
    "minPoseHeight (params wallCamera) = 0"
    by (simp_all add: wallCamera_def est0_def params0_def)
  have h: "poseHeight (wallPose t) = 3 / 2" by (simp add: poseHeight_def wallPose_def)
  have len: "length squareMatches = 4" by (simp add: squareMatches_def)
  show ?thesis
    by (simp add: reachesOrientationGate_def sq_solver requiredMatches_def q len
        reprojectionErrorOf_def sq_reproj sq_cameraPose wall_toWorld h sq_rng
        del: reprojectionErrorLoop.simps)
qed

lemma acceptEstimate_code:
  "acceptEstimate ex aks ads t gm pts img est rvec tvec err inliers \<noteq> Inr (6, est', img')"
  by (auto simp: acceptEstimate_def bindE_def split: sum.splits prod.splits if_splits)

text \<open>
  C7, as the code has it. For a candidate that reaches gate 5 (it passes gates 1 to 4),
  when \<^verbatim>\<open>computeAngleFromZAxis\<close> of the candidate pose in the frame of the fixed camera
  exceeds \<open>phoneOrientationDifferenceThreshold_deg\<close>, \<^verbatim>\<open>update\<close> returns 6 and
  leaves the estimator as culled; otherwise it ends as an accepted call does (it saves the
  inliers, assigns the estimate and returns 0) and never returns 6. That quantity is the
  angle, in degrees with 3.14159 for \<open>\<pi>\<close>, between the z axis of the candidate (its
  optical axis) and the z axis of the fixed-camera frame (the optical axis of the fixed
  camera); for a unit quaternion it is the arc cosine of \<open>1 - 2 (qx\<^sup>2 + qy\<^sup>2)\<close>. The
  transformation to the world frame plays no part in it.
\<close>

theorem orientation_gate_in_camera_frame:
  assumes reach: "matchStage ex (params est) aks ads fks fds fcam img0 = Inr (Inr (r, gm, pts, ips, img))"
      and sol: "runSolver ex acam pts ips est = (rb, rvec, tvec, inliers)"
      and gate: "reachesOrientationGate ex est acam t gm pts ips"
  shows "(computeAngleFromZAxis (cameraPoseOf ex rvec tvec)
            > phoneOrientationDifferenceThreshold_deg (params est)
          \<longrightarrow> update ex aks ads fks fds acam fcam img0 t est
                = Inr (6, cullMemory ex img0 est, img))
       \<and> (computeAngleFromZAxis (cameraPoseOf ex rvec tvec)
            \<le> phoneOrientationDifferenceThreshold_deg (params est)
          \<longrightarrow> update ex aks ads fks fds acam fcam img0 t est
                = acceptEstimate ex aks ads t gm pts img (cullMemory ex img0 est) rvec tvec
                    (reprojectionErrorOf ex acam pts ips rvec tvec inliers) inliers
              \<and> (\<forall>est' img'. update ex aks ads fks fds acam fcam img0 t est
                                 \<noteq> Inr (6, est', img')))
       \<and> (unitQuaternion (orientation (cameraPoseOf ex rvec tvec)) \<longrightarrow>
            computeAngleFromZAxis (cameraPoseOf ex rvec tvec)
              = arccos (1 - 2 * (qx (orientation (cameraPoseOf ex rvec tvec))
                                   * qx (orientation (cameraPoseOf ex rvec tvec))
                                 + qy (orientation (cameraPoseOf ex rvec tvec))
                                   * qy (orientation (cameraPoseOf ex rvec tvec))))
                * 180 / 3.14159)"
proof -
  have rng: "inliersInRange pts ips (projectPoints ex pts rvec tvec acam) inliers"
    using gate sol by (simp add: reachesOrientationGate_def)
  note tot = update_total [OF reach sol rng, of t]
  have g: "gateOutcome ex est acam t gm pts ips
         = (if computeAngleFromZAxis (cameraPoseOf ex rvec tvec)
                 > phoneOrientationDifferenceThreshold_deg (params est) then 6 else 0)"
    using gate sol by (simp add: gateOutcome_def reachesOrientationGate_def)
  have a: "update ex aks ads fks fds acam fcam img0 t est = Inr (6, cullMemory ex img0 est, img)"
    if "computeAngleFromZAxis (cameraPoseOf ex rvec tvec)
          > phoneOrientationDifferenceThreshold_deg (params est)"
    using tot g that by simp
  have b: "update ex aks ads fks fds acam fcam img0 t est
         = acceptEstimate ex aks ads t gm pts img (cullMemory ex img0 est) rvec tvec
             (reprojectionErrorOf ex acam pts ips rvec tvec inliers) inliers"
    if "computeAngleFromZAxis (cameraPoseOf ex rvec tvec)
          \<le> phoneOrientationDifferenceThreshold_deg (params est)"
    using tot g that by simp
  have c: "\<forall>est' img'. update ex aks ads fks fds acam fcam img0 t est \<noteq> Inr (6, est', img')"
    if "computeAngleFromZAxis (cameraPoseOf ex rvec tvec)
          \<le> phoneOrientationDifferenceThreshold_deg (params est)"
    by (simp add: b [OF that] acceptEstimate_code)
  have u: "computeAngleFromZAxis (cameraPoseOf ex rvec tvec)
              = arccos (1 - 2 * (qx (orientation (cameraPoseOf ex rvec tvec))
                                   * qx (orientation (cameraPoseOf ex rvec tvec))
                                 + qy (orientation (cameraPoseOf ex rvec tvec))
                                   * qy (orientation (cameraPoseOf ex rvec tvec))))
                * 180 / 3.14159"
    if "unitQuaternion (orientation (cameraPoseOf ex rvec tvec))"
    by (rule computeAngleFromZAxis_unit [OF that])
  show ?thesis
    using a b c u by blast
qed

theorem orientation_gate_in_camera_frame_witness:
  "reachesOrientationGate facingEnv est0 unitCamera 7 squareMatches squarePoints3d squarePoints2d
   \<and> computeAngleFromZAxis (cameraPoseOf facingEnv (pi, 0, 0) (0, 0, 0))
       > phoneOrientationDifferenceThreshold_deg (params est0)
   \<and> update facingEnv squareKeypoints squareDescriptors squareKeypoints squareDescriptors
       unitCamera unitCamera flatDepth 7 est0 = Inr (6, est0, flatDepth)
   \<and> reachesOrientationGate env0 est0 unitCamera 7 squareMatches squarePoints3d squarePoints2d
   \<and> computeAngleFromZAxis (cameraPoseOf env0 (0, 0, 0) (0, 0, 0))
       \<le> phoneOrientationDifferenceThreshold_deg (params est0)
   \<and> update env0 squareKeypoints squareDescriptors squareKeypoints squareDescriptors unitCamera
       unitCamera flatDepth 7 est0 = Inr (0, acceptedEstimator 7, flatDepth)
   \<and> unitQuaternion (orientation (cameraPoseOf env0 (0, 0, 0) (0, 0, 0)))
   \<and> unitQuaternion (orientation (cameraPoseOf facingEnv (pi, 0, 0) (0, 0, 0)))"
proof -
  have p: "matchingThreshold (params est0) = 25"
    "keypointMinDistThreshold (params est0) = 5"
    by (simp_all add: est0_def params0_def)
  have thr: "phoneOrientationDifferenceThreshold_deg (params est0) = 45"
    by (simp add: est0_def params0_def)
  have big: "(45 :: real) < pi * 180 / 3.14159" using pi_ge_two by simp
  have fa: "computeAngleFromZAxis (cameraPoseOf facingEnv (pi, 0, 0) (0, 0, 0))
              > phoneOrientationDifferenceThreshold_deg (params est0)"
    using big by (simp add: facing_cameraPose facing_angle thr)
  have sa: "computeAngleFromZAxis (cameraPoseOf env0 (0, 0, 0) (0, 0, 0))
              \<le> phoneOrientationDifferenceThreshold_deg (params est0)"
    by (simp add: sq_cameraPose sq_angle thr)
  have u: "unitQuaternion (orientation (cameraPoseOf env0 (0, 0, 0) (0, 0, 0)))"
    by (simp add: sq_cameraPose cameraPose0_def identityQuaternion_def unitQuaternion_def)
  have uf: "unitQuaternion (orientation (cameraPoseOf facingEnv (pi, 0, 0) (0, 0, 0)))"
    by (simp add: facing_cameraPose facingPose_def unitQuaternion_def)
  from orientation_gate_in_camera_frame
    [OF facing_matchStage [OF p] facing_solver facing_gate [of 7]] fa
  have six: "update facingEnv squareKeypoints squareDescriptors squareKeypoints squareDescriptors
       unitCamera unitCamera flatDepth 7 est0 = Inr (6, est0, flatDepth)"
    by (simp add: cull_facing)
  from orientation_gate_in_camera_frame
    [OF sq_matchStage [OF p] sq_solver sq_gate [of 7]] sa
  have "update env0 squareKeypoints squareDescriptors squareKeypoints squareDescriptors unitCamera
       unitCamera flatDepth 7 est0
       = acceptEstimate env0 squareKeypoints squareDescriptors 7 squareMatches squarePoints3d
           flatDepth (cullMemory env0 flatDepth est0) (0, 0, 0) (0, 0, 0)
           (reprojectionErrorOf env0 unitCamera squarePoints3d squarePoints2d (0, 0, 0) (0, 0, 0)
              [0, 1, 2, 3]) [0, 1, 2, 3]"
    by blast
  then have zero: "update env0 squareKeypoints squareDescriptors squareKeypoints squareDescriptors
       unitCamera unitCamera flatDepth 7 est0 = Inr (0, acceptedEstimator 7, flatDepth)"
    using accept_run [of 7] by simp
  show ?thesis using facing_gate sq_gate fa sa six zero u uf by simp
qed

text \<open>
  C7 as stated fails. The fixed camera of \<open>wallCamera\<close> looks horizontally; the
  candidate looks the same way. Its optical axis in the world frame is \<open>(0, 1, 0)\<close>, at a
  right angle to the world's vertical, upward or downward: 90 degrees (a little more in
  the code's degrees), beyond the threshold of 45. The angle that the code compares is
  0, and the estimate is accepted with outcome 0.
\<close>

theorem accepted_while_looking_horizontally:
  "update env0 squareKeypoints squareDescriptors squareKeypoints squareDescriptors unitCamera
       unitCamera flatDepth 7 wallCamera = Inr (0, acceptedWall 7, flatDepth)
   \<and> reachesOrientationGate env0 wallCamera unitCamera 7 squareMatches squarePoints3d
       squarePoints2d
   \<and> lastPoseEstimate (acceptedWall 7) = wallPose 7
   \<and> quatRotate (orientation (ps_pose (wallPose 7))) (0, 0, 1) = (0, 1, 0)
   \<and> vecAngle (0, 1, 0) (0, 0, 1) = pi / 2
   \<and> vecAngle (0, 1, 0) (0, 0, - 1) = pi / 2
   \<and> computeAngleFromZAxis (ps_pose (wallPose 7))
       > phoneOrientationDifferenceThreshold_deg (params wallCamera)
   \<and> computeAngleFromZAxis (cameraPoseOf env0 (0, 0, 0) (0, 0, 0)) = 0"
proof -
  have b: "phoneOrientationDifferenceThreshold_deg (params wallCamera) = 45"
    by (simp add: wallCamera_def est0_def params0_def)
  have c: "(45 :: real) < pi * 90 / 3.14159" using pi_ge_two by simp
  have v: "vecAngle (0, 1, 0) (0, 0, 1) = pi / 2" "vecAngle (0, 1, 0) (0, 0, - 1) = pi / 2"
    by (simp_all add: vecAngle_def dot3_def)
  have e: "lastPoseEstimate (acceptedWall 7) = wallPose 7"
    by (simp add: acceptedWall_def)
  have d: "computeAngleFromZAxis (ps_pose (wallPose 7))
             > phoneOrientationDifferenceThreshold_deg (params wallCamera)"
    unfolding wall_angle b by (rule c)
  have z: "computeAngleFromZAxis (cameraPoseOf env0 (0, 0, 0) (0, 0, 0)) = 0"
    by (simp add: sq_cameraPose sq_angle)
  show ?thesis
    by (intro conjI) (rule wall_run wall_gate e wall_axis v d z)+
qed

section \<open>The matcher, the callback and the feature memory\<close>

lemma empty_query: "findOrbMatches env0 [] squareDescriptors = Inr (0, [])"
  by (simp add: findOrbMatches_def env0_def bfMatcher_hamming_def bindE_def)

lemma empty_train: "bfMatcher_match env0 squareDescriptors [] = Inl CvAssertion"
  by (simp add: env0_def bfMatcher_hamming_def squareDescriptors_def)

text \<open>
  C8, as the code has it. \<^verbatim>\<open>findOrbMatches\<close> has no test on the descriptor sets and
  never returns a negative value: when the matcher returns, the function returns 0 with
  the matcher's list, and when the matcher throws, so does the function.
\<close>

theorem findOrbMatches_returns_zero:
  "(findOrbMatches ex q t = Inr (r, ms) \<longrightarrow> r = 0 \<and> bfMatcher_match ex q t = Inr ms)
   \<and> (bfMatcher_match ex q t = Inl e \<longrightarrow> findOrbMatches ex q t = Inl e)
   \<and> (\<forall>ms'. bfMatcher_match ex q t = Inr ms' \<longrightarrow> findOrbMatches ex q t = Inr (0, ms'))"
  by (auto simp: findOrbMatches_def bindE_def split: sum.splits)

theorem findOrbMatches_returns_zero_witness:
  "findOrbMatches env0 [] squareDescriptors = Inr (0, [])
   \<and> bfMatcher_match env0 [] squareDescriptors = Inr []
   \<and> bfMatcher_match env0 squareDescriptors [] = Inl CvAssertion
   \<and> findOrbMatches env0 squareDescriptors [] = Inl CvAssertion"
proof -
  from findOrbMatches_returns_zero [of env0 "[]" squareDescriptors 0 "[]"] empty_query
  have a: "bfMatcher_match env0 [] squareDescriptors = Inr []" by simp
  from findOrbMatches_returns_zero [of env0 squareDescriptors "[]" 0 "[]" CvAssertion] empty_train
  have b: "findOrbMatches env0 squareDescriptors [] = Inl CvAssertion" by simp
  show ?thesis using empty_query empty_train a b by simp
qed

text \<open>
  C8 as stated fails: with an empty query set and four train descriptors the function
  returns 0 and an empty match list.
\<close>

theorem empty_query_set_succeeds:
  "length ([] :: descriptors) = 0
   \<and> findOrbMatches env0 [] squareDescriptors = Inr (0, [])"
  using empty_query by simp

text \<open>
  C9. When the decoding and the ORB extraction on the fixed side succeed and \<^verbatim>\<open>update\<close>
  returns \<open>u\<close>, \<^verbatim>\<open>featuresCallback\<close> returns \<open>10 * u\<close>: 0 stays 0, the rejections 1
  to 6 come out as 10 to 60 and the failure of the solver as -50.
\<close>

theorem featuresCallback_ten_times_update:
  assumes dec: "readReceivedMessages_features msgs = (r1, dec)" and r1: "0 \<le> r1"
      and orb: "computeOrbFeatures orb_detect orb_compute (kinectCameraImg dec) = (r2, fks, fds)"
      and r2: "0 \<le> r2"
      and upd: "update ex (arcoreKeypoints dec) (arcoreDescriptors dec)
                  (fks @ map keypoint (memoryFeatures ex est))
                  (fds @ map descriptor (memoryFeatures ex est))
                  (arcoreCameraMatrix dec) (kinectCameraMatrix dec) (kinectDepthImg dec) t est
                = Inr (u, est', img')"
  shows "featuresCallback ex readReceivedMessages_features orb_detect orb_compute msgs t est
           = Inr (10 * u, est')
       \<and> u \<in> {- 5, 0, 1, 2, 3, 4, 5, 6}
       \<and> 10 * u \<in> {- 50, 0, 10, 20, 30, 40, 50, 60}"
proof -
  have a: "featuresCallback ex readReceivedMessages_features orb_detect orb_compute msgs t est
           = Inr (10 * u, est')"
    using dec r1 orb r2 upd
    by (simp add: featuresCallback_def Let_def bindE_def memoryFeatures_def)
  from update_range [OF upd] have b: "u \<in> {- 5, 0, 1, 2, 3, 4, 5, 6}" .
  then have "10 * u \<in> {- 50, 0, 10, 20, 30, 40, 50, 60}" by auto
  with a b show ?thesis by simp
qed

theorem featuresCallback_ten_times_update_witness:
  "decode0 () = (0, snd (decode0 ())) \<and> (0 :: int) \<le> 0
   \<and> computeOrbFeatures detect0 compute0 (kinectCameraImg (snd (decode0 ())))
       = (0, squareKeypoints, squareDescriptors)
   \<and> featuresCallback env0 decode0 detect0 compute0 () 7 lowCeiling = Inr (40, lowCeiling)"
proof -
  have d: "decode0 () = (0, snd (decode0 ()))" by (simp add: decode0_def)
  have o: "computeOrbFeatures detect0 compute0 (kinectCameraImg (snd (decode0 ())))
       = (0, squareKeypoints, squareDescriptors)"
    by (simp add: computeOrbFeatures_def detect0_def compute0_def squareKeypoints_def
        squareDescriptors_def Let_def)
  have m: "memoryFeatures env0 lowCeiling = []"
    by (simp add: memoryFeatures_def env0_def lowCeiling_def est0_def)
  have f: "arcoreKeypoints (snd (decode0 ())) = squareKeypoints"
    "arcoreDescriptors (snd (decode0 ())) = squareDescriptors"
    "arcoreCameraMatrix (snd (decode0 ())) = unitCamera"
    "kinectCameraMatrix (snd (decode0 ())) = unitCamera"
    "kinectDepthImg (snd (decode0 ())) = flatDepth"
    by (simp_all add: decode0_def)
  have u: "update env0 (arcoreKeypoints (snd (decode0 ()))) (arcoreDescriptors (snd (decode0 ())))
             (squareKeypoints @ map keypoint (memoryFeatures env0 lowCeiling))
             (squareDescriptors @ map descriptor (memoryFeatures env0 lowCeiling))
             (arcoreCameraMatrix (snd (decode0 ()))) (kinectCameraMatrix (snd (decode0 ())))
             (kinectDepthImg (snd (decode0 ()))) 7 lowCeiling
           = Inr (4, lowCeiling, flatDepth)"
    by (simp add: m f low_run)
  from featuresCallback_ten_times_update
    [where readReceivedMessages_features = decode0 and msgs = "()", OF d _ o _ u]
  have "featuresCallback env0 decode0 detect0 compute0 () 7 lowCeiling = Inr (40, lowCeiling)"
    by simp
  then show ?thesis using d o by simp
qed

text \<open>
  C10. With the feature memory enabled, an accepted call has saved one feature per
  inlier, in order, on top of the culled store: the keypoint and the descriptor of the
  feature are read at the \<open>trainIdx\<close> of the inlier's match in the mobile-side
  containers that \<^verbatim>\<open>update\<close> received, and every such \<open>trainIdx\<close> is within both
  containers. In \<^verbatim>\<open>saveInliersToMemory\<close> an inlier whose \<open>trainIdx\<close> is outside the
  keypoint container raises \<open>OutOfRange\<close> with the store holding the features of the
  inliers before it only.
\<close>

theorem saveInliersToMemory_reads_trainIdx:
  assumes reach: "matchStage ex (params est) aks ads fks fds fcam img0 = Inr (Inr (r, gm, pts, ips, img))"
      and ret: "update ex aks ads fks fds acam fcam img0 t est = Inr (0, est', img')"
      and sol: "runSolver ex acam pts ips est = (rb, rvec, tvec, inliers)"
      and en: "enableFeaturesMemory (params est)"
  shows "saveInliersToMemory ex inliers pts (cameraPoseOf ex rvec tvec) gm aks ads img
           (removeNonBackgroundFeatures ex img0 (featuresMemory est)) = Inr (featuresMemory est')
       \<and> list_all (validInlier pts gm aks ads) inliers
       \<and> featuresMemory est'
           = saveAll ex pts (cameraPoseOf ex rvec tvec) gm aks ads img
               (removeNonBackgroundFeatures ex img0 (featuresMemory est)) inliers
       \<and> (\<forall>pre i post pts' gms kps ds camPose im mem.
            list_all (validInlier pts' gms kps ds) pre \<and> 0 \<le> i \<and> nat i < length pts'
            \<and> nat i < length gms
            \<and> \<not> (0 \<le> trainIdx (gms ! nat i) \<and> nat (trainIdx (gms ! nat i)) < length kps)
            \<longrightarrow> saveInliersToMemory ex (pre @ i # post) pts' camPose gms kps ds im mem
                  = Inl (OutOfRange, saveAll ex pts' camPose gms kps ds im mem pre))"
proof -
  note ps = update_code(2) [OF reach ret]
  have sol': "runSolver ex acam pts ips (cullMemory ex img0 est) = (rb, rvec, tvec, inliers)"
    using sol by simp
  have mem: "featuresMemory (cullMemory ex img0 est)
           = removeNonBackgroundFeatures ex img0 (featuresMemory est)"
    using en by (simp add: cullMemory_def)
  from poseStage_accept [OF ps sol'] en
  have sv: "saveInliersToMemory ex inliers pts (cameraPoseOf ex rvec tvec) gm aks ads img
           (removeNonBackgroundFeatures ex img0 (featuresMemory est)) = Inr (featuresMemory est')"
    by (simp add: mem)
  note ok = saveLoop_ok [OF sv [unfolded saveInliersToMemory_def]]
  show ?thesis
    using sv ok saveLoop_raise [of _ _ _ _ _ _ ex _ _ _ _] 
    by (simp add: saveInliersToMemory_def)
qed


theorem saveInliersToMemory_reads_trainIdx_witness:
  "update env0 squareKeypoints squareDescriptors squareKeypoints squareDescriptors unitCamera
       unitCamera flatDepth 7 est0 = Inr (0, acceptedEstimator 7, flatDepth)
   \<and> enableFeaturesMemory (params est0)
   \<and> list_all (validInlier squarePoints3d squareMatches squareKeypoints squareDescriptors)
         [0, 1, 2, 3]
   \<and> map keypoint (featuresMemory (acceptedEstimator 7)) = squareKeypoints
   \<and> map descriptor (featuresMemory (acceptedEstimator 7)) = squareDescriptors
   \<and> saveInliersToMemory env0 [0, 1] squarePoints3d cameraPose0 [dm 0 0 0, dm 1 9 0]
         squareKeypoints squareDescriptors flatDepth []
       = Inl (OutOfRange,
              saveAll env0 squarePoints3d cameraPose0 [dm 0 0 0, dm 1 9 0] squareKeypoints
                squareDescriptors flatDepth [] [0])"
proof -
  have p: "matchingThreshold (params est0) = 25"
    "keypointMinDistThreshold (params est0) = 5"
    by (simp_all add: est0_def params0_def)
  have en: "enableFeaturesMemory (params est0)" by (simp add: est0_def params0_def)
  note th = saveInliersToMemory_reads_trainIdx
    [OF sq_matchStage [OF p] accept_run [of 7] sq_solver en]
  from th have v: "list_all (validInlier squarePoints3d squareMatches squareKeypoints
                     squareDescriptors) [0, 1, 2, 3]"
    by (simp add: sq_cameraPose)
  from th have m: "featuresMemory (acceptedEstimator 7)
      = saveAll env0 squarePoints3d cameraPose0 squareMatches squareKeypoints squareDescriptors
          flatDepth (removeNonBackgroundFeatures env0 flatDepth (featuresMemory est0))
          [0, 1, 2, 3]"
    by (simp add: sq_cameraPose)
  have k: "map keypoint (featuresMemory (acceptedEstimator 7)) = squareKeypoints"
    "map descriptor (featuresMemory (acceptedEstimator 7)) = squareDescriptors"
    unfolding m
    by (simp_all add: saveAll_def savedFeature_def inlierFeature_def env0_def est0_def
        squarePoints3d_def cameraPose0_def squareMatches_def squareKeypoints_def
        squareDescriptors_def dm_def)
  have pre: "list_all (validInlier squarePoints3d [dm 0 0 0, dm 1 9 0] squareKeypoints
               squareDescriptors) [0]"
    by (simp add: validInlier_def squarePoints3d_def squareKeypoints_def squareDescriptors_def
        dm_def)
  have bad: "\<not> (0 \<le> trainIdx ([dm 0 0 0, dm 1 9 0] ! nat 1)
               \<and> nat (trainIdx ([dm 0 0 0, dm 1 9 0] ! nat 1)) < length squareKeypoints)"
    by (simp add: dm_def squareKeypoints_def)
  have len: "nat 1 < length squarePoints3d" "nat 1 < length [dm 0 0 0, dm 1 9 0]"
    "0 \<le> (1 :: int)"
    by (simp_all add: squarePoints3d_def)
  from th have "saveInliersToMemory env0 ([0] @ 1 # []) squarePoints3d cameraPose0
         [dm 0 0 0, dm 1 9 0] squareKeypoints squareDescriptors flatDepth []
       = Inl (OutOfRange,
              saveAll env0 squarePoints3d cameraPose0 [dm 0 0 0, dm 1 9 0] squareKeypoints
                squareDescriptors flatDepth [] [0])"
    using pre bad len by blast
  then show ?thesis using accept_run en v k by simp
qed

end
